theory Spec2Isabelle
  imports Complex_Main "HOL-Library.Sublist" "HOL-Library.AList"
begin

section \<open>Python values and errors\<close>

text \<open>
  Python \<open>str\<close> values are modelled as \<open>string\<close>: a list of characters whose codes are
  the code points below 256. Exceptions are values: the repository's own
  \<open>RenderCVUserError\<close> carries its message, the interpreter's exceptions that the code lets
  escape are separate constructors.
\<close>

datatype error =
    RenderCVUserError string
  | TypeError
  | IndexError
  | AttributeError
  | KeyError
  | JSONDecodeError
  | OSError
  | BackendError string

text \<open>Truthiness of an optional string (\<open>if api_key:\<close>, \<open>os.environ.get(k)\<close>, \<open>x or d\<close>).\<close>

fun truthy :: "string option \<Rightarrow> bool" where
  "truthy None = False"
| "truthy (Some s) = (s \<noteq> [])"

text \<open>\<open>str.upper\<close> and \<open>str.lower\<close> on the ASCII letters; other characters are kept.\<close>

definition upper_char :: "char \<Rightarrow> char" where
  "upper_char c =
     (let n = (of_char c :: nat) in if 97 \<le> n \<and> n \<le> 122 then char_of (n - 32) else c)"

definition lower_char :: "char \<Rightarrow> char" where
  "lower_char c =
     (let n = (of_char c :: nat) in if 65 \<le> n \<and> n \<le> 90 then char_of (n + 32) else c)"

definition upper :: "string \<Rightarrow> string" where
  "upper s = map upper_char s"

definition lower :: "string \<Rightarrow> string" where
  "lower s = map lower_char s"

section \<open>client.py: configuration and the client factory\<close>

record AIConfig =
  provider :: string
  api_key :: string
  model :: "string option"

text \<open>\<open>AIConfig.get_model\<close>: \<open>if self.model\<close> is truthiness, so an empty override is ignored.\<close>

definition get_model :: "AIConfig \<Rightarrow> error + string" where
  "get_model cfg =
     (if truthy (model cfg) then Inr (the (model cfg))
      else if provider cfg = ''openai'' then Inr ''gpt-4o''
      else if provider cfg = ''anthropic'' then Inr ''claude-sonnet-4-20250514''
      else Inl (RenderCVUserError (''Unknown AI provider: '' @ provider cfg)))"

text \<open>
  The process state the factory reads: \<open>os.environ\<close> and whether the two optional
  backend packages can be imported.
\<close>

record process =
  environ :: "string \<rightharpoonup> string"
  has_openai :: bool
  has_anthropic :: bool

datatype AIClient = OpenAIClient AIConfig | AnthropicClient AIConfig

definition OpenAIClient_init :: "process \<Rightarrow> AIConfig \<Rightarrow> error + AIClient" where
  "OpenAIClient_init ps cfg =
     (if has_openai ps then Inr (OpenAIClient cfg)
      else Inl (RenderCVUserError
        ''OpenAI package is not installed. Install it with: pip install openai''))"

definition AnthropicClient_init :: "process \<Rightarrow> AIConfig \<Rightarrow> error + AIClient" where
  "AnthropicClient_init ps cfg =
     (if has_anthropic ps then Inr (AnthropicClient cfg)
      else Inl (RenderCVUserError
        ''Anthropic package is not installed. Install it with: pip install anthropic''))"

definition err_key_without_provider :: error where
  "err_key_without_provider = RenderCVUserError
     (''When providing an API key, you must also specify the provider'' @
      '' (--provider openai or --provider anthropic)'')"

definition err_no_api_key :: error where
  "err_no_api_key = RenderCVUserError
     (''No API key found. Please set OPENAI_API_KEY or ANTHROPIC_API_KEY'' @
      '' environment variable, or use --api-key with --provider option.'')"

text \<open>
  First block of \<open>get_ai_client\<close> (\<open>if provider is None\<close>): yields the provider and the
  possibly still missing key.
\<close>

definition detect_provider ::
  "process \<Rightarrow> string option \<Rightarrow> string option \<Rightarrow> error + (string \<times> string option)" where
  "detect_provider ps prov key =
     (case prov of
        Some p \<Rightarrow> Inr (p, key)
      | None \<Rightarrow>
          if truthy key then Inl err_key_without_provider
          else if truthy (environ ps ''OPENAI_API_KEY'')
            then Inr (''openai'', environ ps ''OPENAI_API_KEY'')
          else if truthy (environ ps ''ANTHROPIC_API_KEY'')
            then Inr (''anthropic'', environ ps ''ANTHROPIC_API_KEY'')
          else Inl err_no_api_key)"

text \<open>Second block (\<open>if api_key is None\<close>): the provider-specific environment variable.\<close>

definition resolve_key :: "process \<Rightarrow> string \<Rightarrow> string option \<Rightarrow> error + string" where
  "resolve_key ps p key =
     (case key of
        Some k \<Rightarrow> Inr k
      | None \<Rightarrow>
          (let env_var = upper p @ ''_API_KEY'' in
           if truthy (environ ps env_var) then Inr (the (environ ps env_var))
           else Inl (RenderCVUserError
             (''API key not found. Please set '' @ env_var @ '' environment variable'' @
              '' or use --api-key option.''))))"

definition get_ai_client ::
  "process \<Rightarrow> string option \<Rightarrow> string option \<Rightarrow> string option \<Rightarrow> error + AIClient" where
  "get_ai_client ps prov key mdl =
     (case detect_provider ps prov key of
        Inl e \<Rightarrow> Inl e
      | Inr (p, key1) \<Rightarrow>
          (case resolve_key ps p key1 of
             Inl e \<Rightarrow> Inl e
           | Inr k \<Rightarrow>
               (let config = \<lparr>provider = p, api_key = k, model = mdl\<rparr> in
                if p = ''openai'' then OpenAIClient_init ps config
                else if p = ''anthropic'' then AnthropicClient_init ps config
                else Inl (RenderCVUserError
                  (''Unknown AI provider: '' @ p @ ''. Supported providers: openai, anthropic'')))))"

section \<open>JSON values and the Python operators the code applies to them\<close>

text \<open>
  What \<open>json.loads\<close> and the YAML loader return. A \<open>dict\<close> is an association list in
  insertion order, looked up with \<open>map_of\<close>. \<open>JFloat m e\<close> stands for a float; the code never
  computes with one.
\<close>

datatype json =
    JNull
  | JBool bool
  | JInt int
  | JFloat int int
  | JStr string
  | JArr "json list"
  | JObj "(string \<times> json) list"

text \<open>
  \<open>k in v\<close> for a string \<open>k\<close>: key membership in a dict, element membership in a list, substring
  test in a string, and \<open>TypeError\<close> for a value that is not iterable.
\<close>

fun py_contains :: "string \<Rightarrow> json \<Rightarrow> error + bool" where
  "py_contains k (JObj kvs) = Inr (k \<in> set (map fst kvs))"
| "py_contains k (JArr xs) = Inr (JStr k \<in> set xs)"
| "py_contains k (JStr s) = Inr (sublist k s)"
| "py_contains k JNull = Inl TypeError"
| "py_contains k (JBool b) = Inl TypeError"
| "py_contains k (JInt i) = Inl TypeError"
| "py_contains k (JFloat m e) = Inl TypeError"

text \<open>\<open>v[k]\<close> for a string \<open>k\<close>.\<close>

fun py_getitem :: "json \<Rightarrow> string \<Rightarrow> error + json" where
  "py_getitem (JObj kvs) k = (case map_of kvs k of Some v \<Rightarrow> Inr v | None \<Rightarrow> Inl KeyError)"
| "py_getitem v k = Inl TypeError"

text \<open>
  \<open>v[k] = x\<close> for a string \<open>k\<close>: a dict replaces the value of a present key where it stands and
  appends an absent one; nothing else accepts a string index.
\<close>

fun py_setitem :: "json \<Rightarrow> string \<Rightarrow> json \<Rightarrow> error + json" where
  "py_setitem (JObj kvs) k x = Inr (JObj (AList.update k x kvs))"
| "py_setitem v k x = Inl TypeError"

section \<open>Strings\<close>

text \<open>\<open>str.isspace\<close> on the code points below 256.\<close>

definition isspace :: "char \<Rightarrow> bool" where
  "isspace c =
     (let n = (of_char c :: nat) in
      (9 \<le> n \<and> n \<le> 13) \<or> (28 \<le> n \<and> n \<le> 32) \<or> n = 133 \<or> n = 160)"

definition lstrip :: "string \<Rightarrow> string" where
  "lstrip s = dropWhile isspace s"

definition rstrip :: "string \<Rightarrow> string" where
  "rstrip s = rev (dropWhile isspace (rev s))"

definition strip :: "string \<Rightarrow> string" where
  "strip s = rstrip (lstrip s)"

definition startswith :: "string \<Rightarrow> string \<Rightarrow> bool" where
  "startswith s p = prefix p s"

definition endswith :: "string \<Rightarrow> string \<Rightarrow> bool" where
  "endswith s p = suffix p s"

text \<open>\<open>sep.join(xs)\<close>.\<close>

fun join :: "string \<Rightarrow> string list \<Rightarrow> string" where
  "join sep [] = []"
| "join sep [x] = x"
| "join sep (x # y # ys) = x @ sep @ join sep (y # ys)"

section \<open>client.py: the two provider clients\<close>

text \<open>
  The SDK objects the clients talk to are outside the repository. A request is the keyword
  arguments of the call; a reply is what the code reads from it:
  \<open>response.choices[i].message.content\<close> (optional text) for the chat-completion backend and
  \<open>response.content[i]\<close> (a block that has a \<open>text\<close> attribute or not) for the messages backend.
\<close>

type_synonym message = "string \<times> string"

record chat_request =
  cr_model :: string
  cr_messages :: "message list"
  cr_temperature :: rat
  cr_max_tokens :: int
  cr_response_format :: "(string \<times> string) option"

record chat_response =
  choices :: "string option list"

datatype ContentBlock = TextBlock string | OtherBlock

record messages_request =
  mr_model :: string
  mr_max_tokens :: int
  mr_messages :: "message list"
  mr_system :: "string option"
  mr_temperature :: "rat option"

record messages_response =
  content :: "ContentBlock list"

text \<open>The external services: the two backends and the \<open>json\<close> module.\<close>

record services =
  chat_completions_create :: "chat_request \<Rightarrow> error + chat_response"
  messages_create :: "messages_request \<Rightarrow> error + messages_response"
  json_loads :: "string \<Rightarrow> json option"
  json_dumps :: "json \<Rightarrow> string"

definition openai_messages :: "string \<Rightarrow> string option \<Rightarrow> message list" where
  "openai_messages prompt system_prompt =
     (if truthy system_prompt then [(''system'', the system_prompt)] else []) @
     [(''user'', prompt)]"

text \<open>\<open>response.choices[0].message.content\<close>.\<close>

definition first_choice :: "chat_response \<Rightarrow> error + string option" where
  "first_choice r = (case choices r of [] \<Rightarrow> Inl IndexError | c # cs \<Rightarrow> Inr c)"

text \<open>\<open>x or d\<close> for an optional string.\<close>

definition or_else :: "string option \<Rightarrow> string \<Rightarrow> string" where
  "or_else x d = (if truthy x then the x else d)"

definition loads :: "services \<Rightarrow> string \<Rightarrow> error + json" where
  "loads sv s = (case json_loads sv s of None \<Rightarrow> Inl JSONDecodeError | Some v \<Rightarrow> Inr v)"

definition OpenAIClient_generate ::
  "services \<Rightarrow> AIConfig \<Rightarrow> string \<Rightarrow> string option \<Rightarrow> rat \<Rightarrow> int \<Rightarrow> error + string" where
  "OpenAIClient_generate sv cfg prompt system_prompt temperature max_tokens =
     (let messages = openai_messages prompt system_prompt in
      case get_model cfg of
        Inl e \<Rightarrow> Inl e
      | Inr m \<Rightarrow>
          (case chat_completions_create sv
                  \<lparr>cr_model = m, cr_messages = messages, cr_temperature = temperature,
                   cr_max_tokens = max_tokens, cr_response_format = None\<rparr> of
             Inl e \<Rightarrow> Inl e
           | Inr response \<Rightarrow>
               (case first_choice response of
                  Inl e \<Rightarrow> Inl e
                | Inr c \<Rightarrow> Inr (or_else c []))))"

definition OpenAIClient_generate_json ::
  "services \<Rightarrow> AIConfig \<Rightarrow> string \<Rightarrow> string option \<Rightarrow> rat \<Rightarrow> int \<Rightarrow> error + json" where
  "OpenAIClient_generate_json sv cfg prompt system_prompt temperature max_tokens =
     (let messages = openai_messages prompt system_prompt in
      case get_model cfg of
        Inl e \<Rightarrow> Inl e
      | Inr m \<Rightarrow>
          (case chat_completions_create sv
                  \<lparr>cr_model = m, cr_messages = messages, cr_temperature = temperature,
                   cr_max_tokens = max_tokens,
                   cr_response_format = Some (''type'', ''json_object'')\<rparr> of
             Inl e \<Rightarrow> Inl e
           | Inr response \<Rightarrow>
               (case first_choice response of
                  Inl e \<Rightarrow> Inl e
                | Inr c \<Rightarrow> loads sv (or_else c ''{}''))))"

text \<open>\<open>response.content[0].text\<close>.\<close>

definition first_text :: "messages_response \<Rightarrow> error + string" where
  "first_text r =
     (case content r of
        [] \<Rightarrow> Inl IndexError
      | TextBlock t # bs \<Rightarrow> Inr t
      | OtherBlock # bs \<Rightarrow> Inl AttributeError)"

definition anthropic_kwargs ::
  "string \<Rightarrow> int \<Rightarrow> string \<Rightarrow> string option \<Rightarrow> rat \<Rightarrow> messages_request" where
  "anthropic_kwargs m max_tokens prompt system_prompt temperature =
     \<lparr>mr_model = m, mr_max_tokens = max_tokens, mr_messages = [(''user'', prompt)],
      mr_system = (if truthy system_prompt then system_prompt else None),
      mr_temperature = (if temperature > 0 then Some temperature else None)\<rparr>"

definition AnthropicClient_generate ::
  "services \<Rightarrow> AIConfig \<Rightarrow> string \<Rightarrow> string option \<Rightarrow> rat \<Rightarrow> int \<Rightarrow> error + string" where
  "AnthropicClient_generate sv cfg prompt system_prompt temperature max_tokens =
     (case get_model cfg of
        Inl e \<Rightarrow> Inl e
      | Inr m \<Rightarrow>
          (case messages_create sv
                  (anthropic_kwargs m max_tokens prompt system_prompt temperature) of
             Inl e \<Rightarrow> Inl e
           | Inr response \<Rightarrow> first_text response))"

text \<open>
  The clean-up of \<open>AnthropicClient.generate_json\<close> between the reply and \<open>json.loads\<close>:
  \<open>content[7:]\<close> is \<open>drop 7\<close>, \<open>content[:-3]\<close> is \<open>take (length content - 3)\<close>.
\<close>

definition strip_fences :: "string \<Rightarrow> string" where
  "strip_fences reply =
     (let c0 = strip reply;
          c1 = (if startswith c0 ''```json'' then drop 7 c0
                else if startswith c0 ''```'' then drop 3 c0
                else c0);
          c2 = (if endswith c1 ''```'' then take (length c1 - 3) c1 else c1)
      in strip c2)"

definition AnthropicClient_generate_json ::
  "services \<Rightarrow> AIConfig \<Rightarrow> string \<Rightarrow> string option \<Rightarrow> rat \<Rightarrow> int \<Rightarrow> error + json" where
  "AnthropicClient_generate_json sv cfg prompt system_prompt temperature max_tokens =
     (let json_prompt = prompt @ [CHR 10, CHR 10] @ ''Respond with valid JSON only.'' @
                        '' No explanation or markdown formatting.'' in
      case get_model cfg of
        Inl e \<Rightarrow> Inl e
      | Inr m \<Rightarrow>
          (case messages_create sv
                  (anthropic_kwargs m max_tokens json_prompt system_prompt temperature) of
             Inl e \<Rightarrow> Inl e
           | Inr response \<Rightarrow>
               (case first_text response of
                  Inl e \<Rightarrow> Inl e
                | Inr text \<Rightarrow> loads sv (strip_fences text))))"

text \<open>The two methods of the abstract \<open>AIClient\<close>, dispatched on the concrete class.\<close>

fun generate ::
  "services \<Rightarrow> AIClient \<Rightarrow> string \<Rightarrow> string option \<Rightarrow> rat \<Rightarrow> int \<Rightarrow> error + string" where
  "generate sv (OpenAIClient cfg) = OpenAIClient_generate sv cfg"
| "generate sv (AnthropicClient cfg) = AnthropicClient_generate sv cfg"

fun generate_json ::
  "services \<Rightarrow> AIClient \<Rightarrow> string \<Rightarrow> string option \<Rightarrow> rat \<Rightarrow> int \<Rightarrow> error + json" where
  "generate_json sv (OpenAIClient cfg) = OpenAIClient_generate_json sv cfg"
| "generate_json sv (AnthropicClient cfg) = AnthropicClient_generate_json sv cfg"

section \<open>Paths and the file system\<close>

text \<open>
  A \<open>pathlib.Path\<close> on POSIX: the anchor (\<open>""\<close>, \<open>"/"\<close> or \<open>"//"\<close>) and the components after
  it. \<open>name\<close>, \<open>suffix\<close> and \<open>stem\<close> follow the properties of \<open>pathlib.PurePath\<close>
  (\<open>rfind\<close> gives the index of the last dot, or \<open>-1\<close>).
\<close>

record path =
  anchor :: string
  tail :: "string list"

fun split_on :: "char \<Rightarrow> string \<Rightarrow> string list" where
  "split_on c [] = [[]]"
| "split_on c (x # xs) =
     (if x = c then [] # split_on c xs
      else (case split_on c xs of [] \<Rightarrow> [[x]] | y # ys \<Rightarrow> (x # y) # ys))"

definition Path :: "string \<Rightarrow> path" where
  "Path s =
     \<lparr>anchor = (if prefix ''//'' s \<and> \<not> prefix ''///'' s then ''//''
                else if prefix ''/'' s then ''/'' else []),
      tail = filter (\<lambda>c. c \<noteq> [] \<and> c \<noteq> ''.'') (split_on CHR ''/'' s)\<rparr>"

definition path_str :: "path \<Rightarrow> string" where
  "path_str p = (if anchor p = [] \<and> tail p = [] then ''.'' else anchor p @ join ''/'' (tail p))"

definition path_name :: "path \<Rightarrow> string" where
  "path_name p = (if tail p = [] then [] else last (tail p))"

definition rfind :: "string \<Rightarrow> char \<Rightarrow> int" where
  "rfind s c =
     (if c \<in> set s then int (length s) - 1 - int (length (takeWhile (\<lambda>x. x \<noteq> c) (rev s)))
      else - 1)"

definition path_suffix :: "path \<Rightarrow> string" where
  "path_suffix p =
     (let name = path_name p; i = rfind name CHR ''.'' in
      if 0 < i \<and> i < int (length name) - 1 then drop (nat i) name else [])"

definition path_stem :: "path \<Rightarrow> string" where
  "path_stem p =
     (let name = path_name p; i = rfind name CHR ''.'' in
      if 0 < i \<and> i < int (length name) - 1 then take (nat i) name else name)"

text \<open>
  What a path holds: a text file, a file whose reading as UTF-8 text raises (with the
  message of the exception), or a directory.
\<close>

datatype node = File string | Unreadable string | Dir

text \<open>
  The mutable state: the store of Python objects (addresses below \<open>top\<close> are allocated), the
  files, and which paths can be opened for writing.
\<close>

record state =
  heap :: "nat \<Rightarrow> json"
  top :: nat
  files :: "path \<rightharpoonup> node"
  writable :: "path \<Rightarrow> bool"

definition path_exists :: "state \<Rightarrow> path \<Rightarrow> bool" where
  "path_exists st p = (files st p \<noteq> None)"

definition alloc :: "json \<Rightarrow> state \<Rightarrow> nat \<times> state" where
  "alloc v st = (top st, st\<lparr>heap := (heap st)(top st := v), top := Suc (top st)\<rparr>)"

definition nl :: string where
  "nl = [CHR 0x0A]"

section \<open>parser.py: text extraction\<close>

text \<open>
  The document libraries are outside the repository. \<open>pdf_pages\<close> gives what
  \<open>page.extract_text()\<close> returns for each page of \<open>pypdf.PdfReader\<close>; \<open>docx_document\<close> gives the
  paragraph texts and, for each table, each row, the cell texts of \<open>docx.Document\<close>; in both
  \<open>Inl msg\<close> is an exception whose text is \<open>msg\<close>. \<open>read_text\<close> is \<open>Path.read_text\<close> with
  the two encodings.
\<close>

datatype read_result = Text string | UnicodeDecodeError string | ReadError string

record documents =
  has_pypdf :: bool
  has_docx :: bool
  pdf_pages :: "path \<Rightarrow> string + string list"
  docx_document :: "path \<Rightarrow> string + (string list \<times> string list list list)"
  read_text_utf8 :: "path \<Rightarrow> read_result"
  read_text_latin1 :: "path \<Rightarrow> read_result"

definition extract_text_from_pdf :: "documents \<Rightarrow> path \<Rightarrow> error + string" where
  "extract_text_from_pdf lib file_path =
     (if \<not> has_pypdf lib
      then Inl (RenderCVUserError
        ''pypdf package is not installed. Install it with: pip install pypdf'')
      else (case pdf_pages lib file_path of
              Inl msg \<Rightarrow> Inl (RenderCVUserError (''Failed to extract text from PDF: '' @ msg))
            | Inr pages \<Rightarrow> Inr (join (nl @ nl) (filter (\<lambda>t. t \<noteq> []) pages))))"

definition row_entry :: "string list \<Rightarrow> string list" where
  "row_entry cells =
     (let row_text = map strip (filter (\<lambda>c. strip c \<noteq> []) cells) in
      if row_text \<noteq> [] then [join '' | '' row_text] else [])"

definition extract_text_from_docx :: "documents \<Rightarrow> path \<Rightarrow> error + string" where
  "extract_text_from_docx lib file_path =
     (if \<not> has_docx lib
      then Inl (RenderCVUserError
        ''python-docx package is not installed. Install it with: pip install python-docx'')
      else (case docx_document lib file_path of
              Inl msg \<Rightarrow> Inl (RenderCVUserError (''Failed to extract text from DOCX: '' @ msg))
            | Inr (paragraphs, tables) \<Rightarrow>
                Inr (join (nl @ nl)
                  (filter (\<lambda>t. strip t \<noteq> []) paragraphs @
                   concat (map (\<lambda>rows. concat (map row_entry rows)) tables)))))"

definition extract_text_from_txt :: "documents \<Rightarrow> path \<Rightarrow> error + string" where
  "extract_text_from_txt lib file_path =
     (case read_text_utf8 lib file_path of
        Text t \<Rightarrow> Inr t
      | UnicodeDecodeError m \<Rightarrow>
          (case read_text_latin1 lib file_path of
             Text t \<Rightarrow> Inr t
           | UnicodeDecodeError msg \<Rightarrow>
               Inl (RenderCVUserError (''Failed to read text file: '' @ msg))
           | ReadError msg \<Rightarrow> Inl (RenderCVUserError (''Failed to read text file: '' @ msg)))
      | ReadError msg \<Rightarrow> Inl (RenderCVUserError (''Failed to read text file: '' @ msg)))"

definition extract_resume_text :: "documents \<Rightarrow> state \<Rightarrow> path \<Rightarrow> error + string" where
  "extract_resume_text lib st file_path =
     (if \<not> path_exists st file_path
      then Inl (RenderCVUserError (''File not found: '' @ path_str file_path))
      else
        (let sfx = lower (path_suffix file_path) in
         if sfx = ''.pdf'' then extract_text_from_pdf lib file_path
         else if sfx = ''.docx'' then extract_text_from_docx lib file_path
         else if sfx \<in> set [''.txt'', ''.md'', ''.rst''] then extract_text_from_txt lib file_path
         else Inl (RenderCVUserError
           (''Unsupported file format: '' @ sfx @
            ''. Supported formats: PDF, DOCX, TXT, MD''))))"

section \<open>prompts.py and service.py: the resume service\<close>

text \<open>
  The four system prompts are long literals that the service only passes on; they are
  parameters here. The four user templates are given with their placeholders filled in, as
  \<open>str.format\<close> does.
\<close>

record prompts =
  PARSE_RESUME_PROMPT :: string
  POLISH_RESUME_PROMPT :: string
  TAILOR_RESUME_PROMPT :: string
  GENERATE_RESUME_PROMPT :: string

definition PARSE_RESUME_USER_PROMPT :: "string \<Rightarrow> string" where
  "PARSE_RESUME_USER_PROMPT resume_text =
     ''Please parse the following resume and convert it to RenderCV JSON format:'' @ nl @ nl @
     ''---'' @ nl @ resume_text @ nl @ ''---'' @ nl @ nl @
     ''Extract all information and return a valid JSON object with the structure'' @
     '' specified in your instructions.''"

definition POLISH_RESUME_USER_PROMPT :: "string \<Rightarrow> string" where
  "POLISH_RESUME_USER_PROMPT resume_json =
     ''Please improve and polish the following resume JSON to make it more impactful'' @
     '' and professional:'' @ nl @ nl @
     ''```json'' @ nl @ resume_json @ nl @ ''```'' @ nl @ nl @
     ''Return the improved resume in the same JSON format. Focus on:'' @ nl @
     ''- Strengthening action verbs'' @ nl @
     ''- Adding quantifiable metrics where reasonable'' @ nl @
     ''- Improving clarity and conciseness'' @ nl @
     ''- Enhancing professional impact''"

definition TAILOR_RESUME_USER_PROMPT :: "string \<Rightarrow> string \<Rightarrow> string" where
  "TAILOR_RESUME_USER_PROMPT job_description resume_json =
     ''Please tailor the following resume to better match this job description:'' @ nl @ nl @
     ''## Job Description:'' @ nl @ job_description @ nl @ nl @
     ''## Current Resume (JSON):'' @ nl @
     ''```json'' @ nl @ resume_json @ nl @ ''```'' @ nl @ nl @
     ''Return the tailored resume in the same JSON format. Remember to only emphasize'' @
     '' existing skills and experience - do not fabricate anything new.''"

definition GENERATE_RESUME_USER_PROMPT :: "string \<Rightarrow> string" where
  "GENERATE_RESUME_USER_PROMPT user_info =
     ''Please generate a professional resume based on the following information:'' @ nl @ nl @
     user_info @ nl @ nl @
     ''Create a complete, polished resume in JSON format. Make sure to:'' @ nl @
     ''- Use professional language and strong action verbs'' @ nl @
     ''- Organize information logically'' @ nl @
     ''- Include all provided information in appropriate sections'' @ nl @
     ''- Format dates consistently (YYYY-MM)''"

text \<open>
  The service holds a client and calls its \<open>generate_json\<close> with keyword arguments
  \<open>prompt\<close>, \<open>system_prompt\<close> and \<open>temperature\<close>; \<open>max_tokens\<close> keeps its default 8192. Each
  operation returns its result together with the list of the calls it made to the client.
\<close>

type_synonym client = "string \<Rightarrow> string option \<Rightarrow> rat \<Rightarrow> int \<Rightarrow> error + json"

record call =
  call_prompt :: string
  call_system_prompt :: string
  call_temperature :: rat

definition call_generate_json ::
  "client \<Rightarrow> string \<Rightarrow> string \<Rightarrow> rat \<Rightarrow> (error + json) \<times> call list" where
  "call_generate_json cl prompt system_prompt temperature =
     (cl prompt (Some system_prompt) temperature 8192,
      [\<lparr>call_prompt = prompt, call_system_prompt = system_prompt,
        call_temperature = temperature\<rparr>])"

text \<open>\<open>if "cv" not in result: raise RenderCVUserError(message)\<close>, then \<open>return result\<close>.\<close>

definition require_cv :: "string \<Rightarrow> json \<Rightarrow> error + json" where
  "require_cv message result =
     (case py_contains ''cv'' result of
        Inl e \<Rightarrow> Inl e
      | Inr True \<Rightarrow> Inr result
      | Inr False \<Rightarrow> Inl (RenderCVUserError message))"

definition err_no_text :: "path \<Rightarrow> error" where
  "err_no_text file_path = RenderCVUserError
     (''Could not extract any text from '' @ path_str file_path @
      ''. The file may be image-based or corrupted.'')"

definition parse_resume ::
  "documents \<Rightarrow> prompts \<Rightarrow> client \<Rightarrow> state \<Rightarrow> path \<Rightarrow> (error + json) \<times> call list" where
  "parse_resume lib P cl st file_path =
     (case extract_resume_text lib st file_path of
        Inl e \<Rightarrow> (Inl e, [])
      | Inr resume_text \<Rightarrow>
          if strip resume_text = [] then (Inl (err_no_text file_path), [])
          else
            (case call_generate_json cl (PARSE_RESUME_USER_PROMPT resume_text)
                    (PARSE_RESUME_PROMPT P) (2 / 10) of
               (Inl e, calls) \<Rightarrow> (Inl e, calls)
             | (Inr result, calls) \<Rightarrow>
                 (require_cv
                    ''AI failed to generate valid resume structure. Please try again.'' result,
                  calls)))"

definition polish_resume ::
  "services \<Rightarrow> prompts \<Rightarrow> client \<Rightarrow> json \<Rightarrow> string list option \<Rightarrow>
   (error + json) \<times> call list" where
  "polish_resume sv P cl resume_data focus_areas =
     (let resume_json = json_dumps sv resume_data;
          prompt = POLISH_RESUME_USER_PROMPT resume_json @
            (case focus_areas of
               None \<Rightarrow> []
             | Some fs \<Rightarrow>
                 if fs = [] then []
                 else nl @ nl @ ''Please focus especially on improving: '' @ join '', '' fs)
      in case call_generate_json cl prompt (POLISH_RESUME_PROMPT P) (5 / 10) of
           (Inl e, calls) \<Rightarrow> (Inl e, calls)
         | (Inr result, calls) \<Rightarrow>
             (require_cv ''AI failed to generate valid polished resume. Please try again.''
                result, calls))"

definition err_tailor_shape :: error where
  "err_tailor_shape =
     RenderCVUserError ''AI failed to generate valid tailored resume. Please try again.''"

text \<open>The reply handling of \<open>tailor_resume\<close> after the call (lines 144 to 154).\<close>

definition tailor_extract :: "json \<Rightarrow> error + json" where
  "tailor_extract result =
     (case py_contains ''cv'' result of
        Inl e \<Rightarrow> Inl e
      | Inr True \<Rightarrow> Inr result
      | Inr False \<Rightarrow>
          (case py_contains ''resume'' result of
             Inl e \<Rightarrow> Inl e
           | Inr False \<Rightarrow> Inl err_tailor_shape
           | Inr True \<Rightarrow>
               (case py_getitem result ''resume'' of
                  Inl e \<Rightarrow> Inl e
                | Inr inner \<Rightarrow>
                    (case py_contains ''cv'' inner of
                       Inl e \<Rightarrow> Inl e
                     | Inr True \<Rightarrow> py_getitem result ''resume''
                     | Inr False \<Rightarrow> Inl err_tailor_shape))))"

definition tailor_resume ::
  "services \<Rightarrow> prompts \<Rightarrow> client \<Rightarrow> json \<Rightarrow> string \<Rightarrow> (error + json) \<times> call list" where
  "tailor_resume sv P cl resume_data job_description =
     (if strip job_description = []
      then (Inl (RenderCVUserError ''Job description cannot be empty.''), [])
      else
        (let resume_json = json_dumps sv resume_data;
             prompt = TAILOR_RESUME_USER_PROMPT job_description resume_json
         in case call_generate_json cl prompt (TAILOR_RESUME_PROMPT P) (4 / 10) of
              (Inl e, calls) \<Rightarrow> (Inl e, calls)
            | (Inr result, calls) \<Rightarrow> (tailor_extract result, calls)))"

definition generate_resume ::
  "prompts \<Rightarrow> client \<Rightarrow> string \<Rightarrow> (error + json) \<times> call list" where
  "generate_resume P cl user_info =
     (if strip user_info = []
      then (Inl (RenderCVUserError ''User information cannot be empty.''), [])
      else
        (case call_generate_json cl (GENERATE_RESUME_USER_PROMPT user_info)
                (GENERATE_RESUME_PROMPT P) (6 / 10) of
           (Inl e, calls) \<Rightarrow> (Inl e, calls)
         | (Inr result, calls) \<Rightarrow>
             (require_cv ''AI failed to generate valid resume. Please try again.'' result,
              calls)))"

section \<open>service.py: resume file input and output\<close>

text \<open>
  \<open>ruamel.yaml\<close> is outside the repository: \<open>yaml_dump\<close> is the text \<open>yaml.dump\<close> writes for a
  value, \<open>yaml_load\<close> what \<open>yaml.load\<close> returns for a text (\<open>Inl msg\<close>: it raises with the
  text \<open>msg\<close>).
\<close>

record yaml_lib =
  yaml_dump :: "json \<Rightarrow> string"
  yaml_load :: "string \<Rightarrow> string + json"

text \<open>
  \<open>if key not in resume_data: resume_data[key] = block\<close> on the object at address \<open>r\<close>: the
  assignment changes the object in the store.
\<close>

definition ensure_key :: "nat \<Rightarrow> string \<Rightarrow> json \<Rightarrow> state \<Rightarrow> (error + unit) \<times> state" where
  "ensure_key r key block st =
     (case py_contains key (heap st r) of
        Inl e \<Rightarrow> (Inl e, st)
      | Inr True \<Rightarrow> (Inr (), st)
      | Inr False \<Rightarrow>
          (case py_setitem (heap st r) key block of
             Inl e \<Rightarrow> (Inl e, st)
           | Inr d \<Rightarrow> (Inr (), st\<lparr>heap := (heap st)(r := d)\<rparr>)))"

text \<open>\<open>with output_path.open("w") as f: yaml.dump(resume_data, f)\<close>.\<close>

definition write_yaml :: "yaml_lib \<Rightarrow> nat \<Rightarrow> path \<Rightarrow> state \<Rightarrow> (error + unit) \<times> state" where
  "write_yaml yl r output_path st =
     (if files st output_path = Some Dir \<or> \<not> writable st output_path then (Inl OSError, st)
      else (Inr (), st\<lparr>files := (files st)(output_path \<mapsto> File (yaml_dump yl (heap st r)))\<rparr>))"

text \<open>\<open>resume_data\<close> is passed by reference: \<open>r\<close> is the address of the caller's object.\<close>

definition save_resume_yaml ::
  "yaml_lib \<Rightarrow> nat \<Rightarrow> path \<Rightarrow> string \<Rightarrow> string \<Rightarrow> state \<Rightarrow> (error + unit) \<times> state" where
  "save_resume_yaml yl r output_path theme locale st =
     (case ensure_key r ''design'' (JObj [(''theme'', JStr theme)]) st of
        (Inl e, st1) \<Rightarrow> (Inl e, st1)
      | (Inr u, st1) \<Rightarrow>
          (case ensure_key r ''locale'' (JObj [(''language'', JStr locale)]) st1 of
             (Inl e, st2) \<Rightarrow> (Inl e, st2)
           | (Inr u, st2) \<Rightarrow> write_yaml yl r output_path st2))"

definition load_resume_yaml :: "yaml_lib \<Rightarrow> state \<Rightarrow> path \<Rightarrow> error + json" where
  "load_resume_yaml yl st file_path =
     (case files st file_path of
        None \<Rightarrow> Inl (RenderCVUserError (''File not found: '' @ path_str file_path))
      | Some Dir \<Rightarrow>
          Inl (RenderCVUserError
            (''Failed to load YAML file: [Errno 21] Is a directory: '' @
             [CHR 0x27] @ path_str file_path @ [CHR 0x27]))
      | Some (Unreadable msg) \<Rightarrow> Inl (RenderCVUserError (''Failed to load YAML file: '' @ msg))
      | Some (File s) \<Rightarrow>
          (case yaml_load yl s of
             Inl msg \<Rightarrow> Inl (RenderCVUserError (''Failed to load YAML file: '' @ msg))
           | Inr (JObj kvs) \<Rightarrow> Inr (JObj kvs)
           | Inr other \<Rightarrow>
               Inl (RenderCVUserError (''Invalid YAML structure in '' @ path_str file_path))))"

definition read_job_description :: "state \<Rightarrow> string \<Rightarrow> string" where
  "read_job_description st source =
     (case files st (Path source) of
        Some (File s) \<Rightarrow> s
      | other \<Rightarrow> source)"

section \<open>ai_command.py: the polish and tailor commands\<close>

text \<open>
  \<open>if key in resume_data and key not in new_data: new_data[key] = resume_data[key]\<close>.
\<close>

definition preserve :: "string \<Rightarrow> json \<Rightarrow> json \<Rightarrow> error + json" where
  "preserve key resume_data new_data =
     (case py_contains key resume_data of
        Inl e \<Rightarrow> Inl e
      | Inr False \<Rightarrow> Inr new_data
      | Inr True \<Rightarrow>
          (case py_contains key new_data of
             Inl e \<Rightarrow> Inl e
           | Inr True \<Rightarrow> Inr new_data
           | Inr False \<Rightarrow>
               (case py_getitem resume_data key of
                  Inl e \<Rightarrow> Inl e
                | Inr v \<Rightarrow> py_setitem new_data key v)))"

text \<open>
  The three statements that \<open>ai_polish\<close> (lines 263 to 269) and \<open>ai_tailor\<close> (lines 373 to
  379) both run between the service call and the save.
\<close>

definition carry_over :: "json \<Rightarrow> json \<Rightarrow> error + json" where
  "carry_over resume_data new_data =
     (case preserve ''design'' resume_data new_data of
        Inl e \<Rightarrow> Inl e
      | Inr n1 \<Rightarrow>
          (case preserve ''locale'' resume_data n1 of
             Inl e \<Rightarrow> Inl e
           | Inr n2 \<Rightarrow> preserve ''settings'' resume_data n2))"

text \<open>
  The environment of a command: the process, the external services and libraries, and the
  prompt constants.
\<close>

record command_env =
  ctx_process :: process
  ctx_services :: services
  ctx_yaml :: yaml_lib
  ctx_prompts :: prompts

text \<open>
  The end of both commands: the new document is an object of its own; it is given to
  \<open>save_resume_yaml\<close> with the default theme and locale.
\<close>

definition carry_and_save ::
  "command_env \<Rightarrow> json \<Rightarrow> json \<Rightarrow> path \<Rightarrow> state \<Rightarrow> (error + unit) \<times> state" where
  "carry_and_save cx resume_data new_data output st =
     (case carry_over resume_data new_data of
        Inl e \<Rightarrow> (Inl e, st)
      | Inr merged \<Rightarrow>
          (case alloc merged st of
             (r, st1) \<Rightarrow> save_resume_yaml (ctx_yaml cx) r output ''classic'' ''english'' st1))"

text \<open>The output path of each command ("Determine output path").\<close>

definition polish_output :: "path \<Rightarrow> path option \<Rightarrow> bool \<Rightarrow> path" where
  "polish_output input_file output in_place =
     (if in_place then input_file
      else (case output of
              None \<Rightarrow> Path (path_stem input_file @ ''_polished.yaml'')
            | Some p \<Rightarrow> p))"

definition tailor_output :: "path \<Rightarrow> path option \<Rightarrow> path" where
  "tailor_output input_file output =
     (case output of
        None \<Rightarrow> Path (path_stem input_file @ ''_tailored.yaml'')
      | Some p \<Rightarrow> p)"

definition ai_polish ::
  "command_env \<Rightarrow> path \<Rightarrow> path option \<Rightarrow> string list option \<Rightarrow> bool \<Rightarrow>
   string option \<Rightarrow> string option \<Rightarrow> string option \<Rightarrow> state \<Rightarrow> (error + unit) \<times> state" where
  "ai_polish cx input_file output focus in_place prov key mdl st =
     (let out = polish_output input_file output in_place
      in case load_resume_yaml (ctx_yaml cx) st input_file of
           Inl e \<Rightarrow> (Inl e, st)
         | Inr resume_data \<Rightarrow>
             (case get_ai_client (ctx_process cx) prov key mdl of
                Inl e \<Rightarrow> (Inl e, st)
              | Inr service \<Rightarrow>
                  (case fst (polish_resume (ctx_services cx) (ctx_prompts cx)
                               (generate_json (ctx_services cx) service) resume_data focus) of
                     Inl e \<Rightarrow> (Inl e, st)
                   | Inr polished_data \<Rightarrow> carry_and_save cx resume_data polished_data out st)))"

definition ai_tailor ::
  "command_env \<Rightarrow> path \<Rightarrow> string \<Rightarrow> path option \<Rightarrow>
   string option \<Rightarrow> string option \<Rightarrow> string option \<Rightarrow> state \<Rightarrow> (error + unit) \<times> state" where
  "ai_tailor cx input_file job output prov key mdl st =
     (let out = tailor_output input_file output;
          job_description = read_job_description st job
      in case load_resume_yaml (ctx_yaml cx) st input_file of
           Inl e \<Rightarrow> (Inl e, st)
         | Inr resume_data \<Rightarrow>
             (case get_ai_client (ctx_process cx) prov key mdl of
                Inl e \<Rightarrow> (Inl e, st)
              | Inr service \<Rightarrow>
                  (case fst (tailor_resume (ctx_services cx) (ctx_prompts cx)
                               (generate_json (ctx_services cx) service) resume_data
                               job_description) of
                     Inl e \<Rightarrow> (Inl e, st)
                   | Inr tailored_data \<Rightarrow> carry_and_save cx resume_data tailored_data out st)))"

section \<open>Inputs and stand-ins for the external services\<close>

text \<open>
  A messages backend that answers every request with one text block, and a chat-completion
  backend that answers every request with one choice.
\<close>

definition text_reply :: "services \<Rightarrow> string \<Rightarrow> services" where
  "text_reply sv t = sv\<lparr>messages_create := (\<lambda>req. Inr \<lparr>content = [TextBlock t]\<rparr>)\<rparr>"

definition choice_reply :: "services \<Rightarrow> string option \<Rightarrow> services" where
  "choice_reply sv c = sv\<lparr>chat_completions_create := (\<lambda>req. Inr \<lparr>choices = [c]\<rparr>)\<rparr>"

text \<open>
  A necessary condition for a text to be JSON (as \<open>json.loads\<close> reads it): after the
  surrounding white space, it begins with a character that can begin a JSON value and ends
  with one that can end it.
\<close>

definition json_first :: "char list" where
  "json_first = CHR 0x22 # ''{[-0123456789tfnNI''"

definition json_last :: "char list" where
  "json_last = CHR 0x22 # ''}]0123456789elNy''"

definition json_text :: "string \<Rightarrow> bool" where
  "json_text s =
     (strip s \<noteq> [] \<and> hd (strip s) \<in> set json_first \<and> last (strip s) \<in> set json_last)"

text \<open>A messages backend whose reply has an empty list of content blocks.\<close>

definition empty_reply :: "services \<Rightarrow> services" where
  "empty_reply sv = sv\<lparr>messages_create := (\<lambda>req. Inr \<lparr>content = []\<rparr>)\<rparr>"

text \<open>
  The dictionary after \<open>if key not in d: d[key] = block\<close>, and after
  \<open>if key in old and key not in d: d[key] = old[key]\<close>.
\<close>

definition add_default :: "string \<Rightarrow> json \<Rightarrow> (string \<times> json) list \<Rightarrow> (string \<times> json) list" where
  "add_default key block d = (if key \<in> set (map fst d) then d else AList.update key block d)"

definition keep_from ::
  "string \<Rightarrow> (string \<times> json) list \<Rightarrow> (string \<times> json) list \<Rightarrow> (string \<times> json) list" where
  "keep_from key old d =
     (if key \<in> set (map fst old) \<and> key \<notin> set (map fst d)
      then AList.update key (the (map_of old key)) d else d)"

text \<open>
  The carry-over law in the words of the specification: each of the three keys that the old
  document has and the new one lacks has the old document's value in \<open>doc\<close>, and every key
  of the new document has the new document's value in \<open>doc\<close>.
\<close>

definition carried_forward ::
  "(string \<times> json) list \<Rightarrow> (string \<times> json) list \<Rightarrow> json \<Rightarrow> bool" where
  "carried_forward old new doc =
     ((\<forall>k \<in> set [''design'', ''locale'', ''settings''].
         k \<in> set (map fst old) \<and> k \<notin> set (map fst new) \<longrightarrow>
         py_getitem doc k = py_getitem (JObj old) k) \<and>
      (\<forall>k \<in> set (map fst new). py_getitem doc k = py_getitem (JObj new) k))"

section \<open>Example values\<close>

text \<open>
  Stand-ins in the manner of the repository's tests: a JSON module that knows three texts,
  backends that are never reached, a YAML library that knows one document, and a small
  file system.
\<close>

definition example_body :: string where
  "example_body = ''{'' @ [CHR 0x22] @ ''key'' @ [CHR 0x22] @ '': '' @
                  [CHR 0x22] @ ''value'' @ [CHR 0x22] @ ''}''"

definition example_cv_reply :: string where
  "example_cv_reply = ''{'' @ [CHR 0x22] @ ''cv'' @ [CHR 0x22] @ '': {}}''"

definition example_loads :: "string \<Rightarrow> json option" where
  "example_loads s =
     (if s = example_body then Some (JObj [(''key'', JStr ''value'')])
      else if s = example_cv_reply then Some (JObj [(''cv'', JObj [])])
      else if s = ''{}'' then Some (JObj [])
      else None)"

definition example_services :: services where
  "example_services =
     \<lparr>chat_completions_create = (\<lambda>req. Inl (BackendError ''unreachable'')),
      messages_create = (\<lambda>req. Inl (BackendError ''unreachable'')),
      json_loads = example_loads,
      json_dumps = (\<lambda>v. ''{}'')\<rparr>"

definition example_prompts :: prompts where
  "example_prompts =
     \<lparr>PARSE_RESUME_PROMPT = ''You are an expert resume parser.'',
      POLISH_RESUME_PROMPT = ''You are an expert resume writer and career coach.'',
      TAILOR_RESUME_PROMPT = ''You are an expert resume writer specializing in tailoring.'',
      GENERATE_RESUME_PROMPT = ''You are an expert resume writer.''\<rparr>"

definition example_documents :: "string \<Rightarrow> documents" where
  "example_documents t =
     \<lparr>has_pypdf = False, has_docx = False,
      pdf_pages = (\<lambda>p. Inl ''no reader''),
      docx_document = (\<lambda>p. Inl ''no reader''),
      read_text_utf8 = (\<lambda>p. Text t),
      read_text_latin1 = (\<lambda>p. Text t)\<rparr>"

definition example_old :: "(string \<times> json) list" where
  "example_old =
     [(''cv'', JObj [(''name'', JStr ''John Doe'')]),
      (''design'', JObj [(''theme'', JStr ''moderncv'')]),
      (''locale'', JObj [(''language'', JStr ''french'')]),
      (''settings'', JObj [(''bold_keywords'', JArr [])])]"

definition example_yaml :: "json \<Rightarrow> yaml_lib" where
  "example_yaml doc =
     \<lparr>yaml_dump = (\<lambda>v. if v = doc then ''doc'' else ''other''),
      yaml_load = (\<lambda>s. if s = ''doc'' then Inr doc else Inl ''scanner error'')\<rparr>"

definition example_state :: "path \<Rightarrow> string \<Rightarrow> state" where
  "example_state p t =
     \<lparr>heap = (\<lambda>a. JNull), top = 0, files = [p \<mapsto> File t], writable = (\<lambda>q. True)\<rparr>"

definition example_new :: "(string \<times> json) list" where
  "example_new =
     [(''cv'', JObj [(''name'', JStr ''John Doe''), (''headline'', JStr ''Python Developer'')])]"


definition example_path :: path where
  "example_path = \<lparr>anchor = ''/'', tail = [''tmp'', ''output.yaml'']\<rparr>"

text \<open>A store whose only object, at address 0, is the given document; no files.\<close>

definition example_store :: "json \<Rightarrow> state" where
  "example_store doc =
     \<lparr>heap = (\<lambda>a. if a = 0 then doc else JNull), top = 1, files = Map.empty,
      writable = (\<lambda>q. True)\<rparr>"

text \<open>
  A command environment: an OpenAI key in the environment, a chat-completion backend that
  answers \<open>{"cv": {}}\<close>, and a YAML library that knows the old document.
\<close>

definition example_env :: command_env where
  "example_env =
     \<lparr>ctx_process = \<lparr>environ = [''OPENAI_API_KEY'' \<mapsto> ''test-key''],
                      has_openai = True, has_anthropic = True\<rparr>,
      ctx_services = choice_reply example_services (Some example_cv_reply),
      ctx_yaml = example_yaml (JObj example_old),
      ctx_prompts = example_prompts\<rparr>"

definition example_input :: path where
  "example_input = \<lparr>anchor = ''/'', tail = [''tmp'', ''cv.yaml'']\<rparr>"


text \<open>
  A result of the chat-completion backend that carries no content: a reply whose first choice
  has the content \<open>None\<close> or the empty string.
\<close>

definition no_content :: "error + chat_response \<Rightarrow> bool" where
  "no_content r =
     (case r of
        Inl e \<Rightarrow> False
      | Inr response \<Rightarrow> (case choices response of [] \<Rightarrow> False | c # cs \<Rightarrow> \<not> truthy c))"
section \<open>Facts about strings\<close>


lemma dropWhile_all_Nil:
  "\<forall>x\<in>set (dropWhile P s). P x \<Longrightarrow> dropWhile P s = []"
  using hd_dropWhile [of P s] by (cases "dropWhile P s") auto

lemma strip_Nil_iff: "strip s = [] \<longleftrightarrow> list_all isspace s"
proof
  assume "strip s = []"
  then have "\<forall>x\<in>set (dropWhile isspace s). isspace x"
    by (simp add: strip_def lstrip_def rstrip_def dropWhile_eq_Nil_conv)
  then have "dropWhile isspace s = []" by (rule dropWhile_all_Nil)
  then show "list_all isspace s" by (simp add: dropWhile_eq_Nil_conv list_all_iff)
next
  assume "list_all isspace s"
  then show "strip s = []"
    by (auto simp: strip_def lstrip_def rstrip_def list_all_iff dest: set_dropWhileD)
qed

lemma rstrip_append_ws: "list_all isspace w \<Longrightarrow> rstrip (t @ w) = rstrip t"
  by (simp add: rstrip_def dropWhile_append list_all_iff)

lemma lstrip_append_ws: "list_all isspace w \<Longrightarrow> lstrip (w @ t) = lstrip t"
  by (simp add: lstrip_def dropWhile_append list_all_iff)

lemma strip_ws_left: "list_all isspace w \<Longrightarrow> strip (w @ t) = strip t"
  by (simp add: strip_def lstrip_append_ws)

lemma strip_ws_right:
  assumes "list_all isspace w"
  shows "strip (t @ w) = strip t"
proof (cases "list_all isspace t")
  case True
  with assms have "list_all isspace (t @ w)" by simp
  with True show ?thesis by (simp only: iffD2 [OF strip_Nil_iff])
next
  case False
  then have "lstrip (t @ w) = lstrip t @ w"
    by (auto simp: lstrip_def dropWhile_append list_all_iff)
  with assms show ?thesis by (simp add: strip_def rstrip_append_ws)
qed

lemma lstrip_id: "s = [] \<or> \<not> isspace (hd s) \<Longrightarrow> lstrip s = s"
  by (cases s) (auto simp: lstrip_def)

lemma rstrip_id: "s = [] \<or> \<not> isspace (last s) \<Longrightarrow> rstrip s = s"
  by (cases "rev s") (auto simp: rstrip_def last_rev [symmetric] simp del: last_rev)

lemma strip_id: "s = [] \<or> (\<not> isspace (hd s) \<and> \<not> isspace (last s)) \<Longrightarrow> strip s = s"
  by (auto simp: strip_def lstrip_id rstrip_id)

lemma rstrip_decomp: "\<exists>w. u = rstrip u @ w \<and> list_all isspace w"
proof -
  have "rev (takeWhile isspace (rev u) @ dropWhile isspace (rev u)) = u"
    by (simp only: takeWhile_dropWhile_id rev_rev_ident)
  then have "u = rstrip u @ rev (takeWhile isspace (rev u))"
    by (simp only: rev_append rstrip_def)
  moreover have "list_all isspace (rev (takeWhile isspace (rev u)))"
    by (auto simp: list_all_iff dest: set_takeWhileD)
  ultimately show ?thesis by blast
qed

lemma strip_ends: "strip s = [] \<or> (\<not> isspace (hd (strip s)) \<and> \<not> isspace (last (strip s)))"
proof (cases "strip s = []")
  case True then show ?thesis by simp
next
  case False
  define u where "u = lstrip s"
  have s: "strip s = rstrip u" by (simp add: strip_def u_def)
  with False have ne: "rstrip u \<noteq> []" by simp
  obtain w where w: "u = rstrip u @ w" using rstrip_decomp by blast
  from ne w have "hd u = hd (rstrip u)" by (metis hd_append2)
  moreover have "u \<noteq> []" using ne w by auto
  then have "\<not> isspace (hd u)" unfolding u_def lstrip_def by (rule hd_dropWhile)
  moreover have "\<not> isspace (last (rstrip u))"
    using ne hd_dropWhile [of isspace "rev u"] by (simp add: rstrip_def last_rev)
  ultimately show ?thesis using s by simp
qed

lemma hd_strip: "strip s \<noteq> [] \<Longrightarrow> hd (strip s) = hd (lstrip s)"
proof -
  assume ne: "strip s \<noteq> []"
  obtain w where w: "lstrip s = rstrip (lstrip s) @ w" using rstrip_decomp by blast
  from ne have "rstrip (lstrip s) \<noteq> []" by (simp add: strip_def)
  with w have "hd (lstrip s) = hd (rstrip (lstrip s))" by (metis hd_append2)
  then show ?thesis by (simp add: strip_def)
qed

lemma strip_idem: "strip (strip s) = strip s"
  using strip_ends [of s] by (rule strip_id)



section \<open>Facts about the removal of code fences\<close>


lemma not_space_backtick: "\<not> isspace CHR ''`''"
  by (simp add: isspace_def)

lemma strip_fences_bare:
  assumes "\<not> startswith (strip s) ''```''" "\<not> endswith (strip s) ''```''"
  shows "strip_fences s = strip s"
proof -
  from assms(1) have "\<not> startswith (strip s) ''```json''"
    by (auto simp: startswith_def prefix_def)
  with assms show ?thesis
    by (simp add: strip_fences_def Let_def strip_idem)
qed

lemma strip_core:
  assumes "list_all isspace w1" "list_all isspace w4"
  shows "strip (w1 @ CHR ''`'' # xs @ ''`'' @ w4) = CHR ''`'' # xs @ ''`''"
proof -
  have "strip (w1 @ (CHR ''`'' # xs @ ''`'') @ w4) = strip ((CHR ''`'' # xs @ ''`'') @ w4)"
    using assms(1) by (rule strip_ws_left)
  also have "\<dots> = strip (CHR ''`'' # xs @ ''`'')"
    using assms(2) by (rule strip_ws_right)
  also have "\<dots> = CHR ''`'' # xs @ ''`''"
    by (rule strip_id) (simp add: not_space_backtick)
  finally show ?thesis by simp
qed

lemma strip_fences_json:
  assumes "list_all isspace w1" "list_all isspace w2" "list_all isspace w3" "list_all isspace w4"
  shows "strip_fences (w1 @ ''```json'' @ w2 @ s @ w3 @ ''```'' @ w4) = strip s"
proof -
  have c0: "strip (w1 @ ''```json'' @ w2 @ s @ w3 @ ''```'' @ w4)
            = ''```json'' @ w2 @ s @ w3 @ ''```''"
    using strip_core [OF assms(1) assms(4), of "''``json'' @ w2 @ s @ w3 @ ''``''"] by simp
  have c2: "take (length (w2 @ s @ w3 @ ''```'') - 3) (w2 @ s @ w3 @ ''```'') = w2 @ s @ w3"
    by simp
  have "strip_fences (w1 @ ''```json'' @ w2 @ s @ w3 @ ''```'' @ w4) = strip (w2 @ s @ w3)"
    unfolding strip_fences_def c0 Let_def
    by (simp add: startswith_def endswith_def suffix_def)
  also have "\<dots> = strip s"
    using assms(2,3) strip_ws_left [of w2 "s @ w3"] strip_ws_right [of w3 s] by simp
  finally show ?thesis .
qed

lemma not_prefix_json:
  assumes "list_all isspace w2" "list_all isspace w3" "\<not> (w2 = [] \<and> prefix ''json'' s)"
  shows "\<not> prefix ''json'' (w2 @ s @ w3 @ ''```'')"
proof (cases w2)
  case (Cons c cs)
  with assms(1) have "isspace c" by simp
  then have "c \<noteq> CHR ''j''" by (auto simp: isspace_def)
  with Cons show ?thesis by simp
next
  case Nil
  with assms(3) have ns: "\<not> prefix ''json'' s" by simp
  show ?thesis
  proof
    assume "prefix ''json'' (w2 @ s @ w3 @ ''```'')"
    with Nil ns obtain us where us: "''json'' = s @ us" "prefix us (w3 @ ''```'')"
      by (auto simp: prefix_append)
    from ns us(1) have "us \<noteq> []" by auto
    with us(1) have "hd us \<in> set ''json''"
      by (metis append_Nil2 hd_in_set in_set_conv_decomp list.set_sel(1) set_append UnCI)
    moreover from us(2) \<open>us \<noteq> []\<close> have "hd us = hd (w3 @ ''```'')"
      by (cases us) (auto simp: prefix_def)
    moreover have "isspace (hd (w3 @ ''```'')) \<or> hd (w3 @ ''```'') = CHR ''`''"
      using assms(2) by (cases w3) auto
    ultimately show False by (auto simp: isspace_def)
  qed
qed

lemma strip_fences_plain:
  assumes "list_all isspace w1" "list_all isspace w2" "list_all isspace w3" "list_all isspace w4"
    and "\<not> (w2 = [] \<and> prefix ''json'' s)"
  shows "strip_fences (w1 @ ''```'' @ w2 @ s @ w3 @ ''```'' @ w4) = strip s"
proof -
  have c0: "strip (w1 @ ''```'' @ w2 @ s @ w3 @ ''```'' @ w4)
            = ''```'' @ w2 @ s @ w3 @ ''```''"
    using strip_core [OF assms(1) assms(4), of "''``'' @ w2 @ s @ w3 @ ''``''"] by simp
  have nj: "\<not> prefix ''json'' (w2 @ s @ w3 @ ''```'')"
    using assms(2,3,5) by (rule not_prefix_json)
  have "strip_fences (w1 @ ''```'' @ w2 @ s @ w3 @ ''```'' @ w4) = strip (w2 @ s @ w3)"
    unfolding strip_fences_def c0 Let_def using nj
    by (simp add: startswith_def endswith_def suffix_def)
  also have "\<dots> = strip s"
    using assms(2,3) strip_ws_left [of w2 "s @ w3"] strip_ws_right [of w3 s] by simp
  finally show ?thesis .
qed



section \<open>Facts about the example values\<close>


lemma isspace_nl: "list_all isspace nl"
  by (simp add: nl_def isspace_def)

lemma json_text_example: "json_text example_body"
  by (simp add: json_text_def example_body_def strip_def lstrip_def rstrip_def isspace_def
      json_first_def json_last_def)

lemma extract_txt_example:
  "extract_resume_text (example_documents t)
     (example_state \<lparr>anchor = ''/'', tail = [''tmp'', ''resume.txt'']\<rparr> t)
     \<lparr>anchor = ''/'', tail = [''tmp'', ''resume.txt'']\<rparr> = Inr t"
  by (simp add: extract_resume_text_def path_exists_def example_state_def path_suffix_def
      path_name_def rfind_def lower_def lower_char_def extract_text_from_txt_def
      example_documents_def Let_def)

section \<open>Credential resolution\<close>










section \<open>The reply shapes of the tailor operation\<close>

text \<open>
  Where the reply is an object and the value under \<open>resume\<close> is an object too, the operation
  behaves as described: the reply itself when it has \<open>cv\<close>, the value under \<open>resume\<close> when
  that has \<open>cv\<close>, so that \<open>{cv: v}\<close> and \<open>{resume: {cv: v}}\<close> both give \<open>{cv: v}\<close>, and the
  shape error when \<open>resume\<close> is absent or its object has no \<open>cv\<close>.
\<close>

lemma tailor_extract_bare:
  "''cv'' \<in> set (map fst r) \<Longrightarrow> tailor_extract (JObj r) = Inr (JObj r)"
  by (simp add: tailor_extract_def)

lemma map_of_Some_key: "map_of r k = Some v \<Longrightarrow> k \<in> set (map fst r)"
  by (force dest: map_of_SomeD)

lemma tailor_extract_nested:
  "''cv'' \<notin> set (map fst r) \<Longrightarrow> map_of r ''resume'' = Some (JObj inner) \<Longrightarrow>
   ''cv'' \<in> set (map fst inner) \<Longrightarrow> tailor_extract (JObj r) = Inr (JObj inner)"
  using map_of_Some_key [of r "''resume''" "JObj inner"] by (simp add: tailor_extract_def)

lemma tailor_extract_no_resume:
  "''cv'' \<notin> set (map fst r) \<Longrightarrow> ''resume'' \<notin> set (map fst r) \<Longrightarrow>
   tailor_extract (JObj r) = Inl err_tailor_shape"
  by (simp add: tailor_extract_def)

lemma tailor_extract_nested_without_cv:
  "''cv'' \<notin> set (map fst r) \<Longrightarrow> map_of r ''resume'' = Some (JObj inner) \<Longrightarrow>
   ''cv'' \<notin> set (map fst inner) \<Longrightarrow> tailor_extract (JObj r) = Inl err_tailor_shape"
  using map_of_Some_key [of r "''resume''" "JObj inner"] by (simp add: tailor_extract_def)

lemma tailor_extract_same_document:
  "tailor_extract (JObj [(''cv'', v)]) = Inr (JObj [(''cv'', v)])"
  "tailor_extract (JObj [(''resume'', JObj [(''cv'', v)])]) = Inr (JObj [(''cv'', v)])"
  by (simp_all add: tailor_extract_def)

text \<open>
  C2. The claim says that every reply that has neither shape raises the shape error
  (a \<open>RenderCVUserError\<close>). The reply \<open>{"resume": null}\<close> does not: \<open>"cv" in result["resume"]\<close>
  is evaluated on \<open>None\<close> and a \<open>TypeError\<close> escapes from \<open>tailor_resume\<close>.
\<close>

theorem tailor_resume_null_resume:
  "tailor_extract (JObj [(''resume'', JNull)]) = Inl TypeError
   \<and> fst (tailor_resume sv P (\<lambda>prompt system_prompt temperature max_tokens.
             Inr (JObj [(''resume'', JNull)]))
           (JObj [(''cv'', JObj [(''name'', JStr ''John Doe'')])])
           ''Looking for a Python developer...'') = Inl TypeError
   \<and> Inl TypeError \<noteq> (Inl err_tailor_shape :: error + json)"
  by (simp add: tailor_extract_def tailor_resume_def call_generate_json_def
      strip_def lstrip_def rstrip_def isspace_def err_tailor_shape_def)


text \<open>
  C3. When the relevant text is blank (empty or white space only), each operation raises its
  own precondition error and makes no call to the client: \<open>parse_resume\<close> on a blank
  extracted text, \<open>tailor_resume\<close> on a blank job description, \<open>generate_resume\<close> on blank
  user information. The second component is the list of calls made to \<open>generate_json\<close>.
\<close>

theorem blank_input_raises_before_call:
  "(extract_resume_text lib st file_path = Inr t \<and> list_all isspace t \<longrightarrow>
      parse_resume lib P cl st file_path = (Inl (err_no_text file_path), []))
   \<and> (list_all isspace job_description \<longrightarrow>
      tailor_resume sv P cl resume_data job_description =
        (Inl (RenderCVUserError ''Job description cannot be empty.''), []))
   \<and> (list_all isspace user_info \<longrightarrow>
      generate_resume P cl user_info =
        (Inl (RenderCVUserError ''User information cannot be empty.''), []))"
  by (simp add: parse_resume_def tailor_resume_def generate_resume_def strip_Nil_iff)


text \<open>
  The theorem at the inputs of the repository's tests: an empty \<open>resume.txt\<close> and the
  three-space strings.
\<close>

theorem blank_input_raises_before_call_witness:
  "parse_resume (example_documents []) example_prompts (\<lambda>p s t m. Inr (JObj [(''cv'', JObj [])]))
     (example_state \<lparr>anchor = ''/'', tail = [''tmp'', ''resume.txt'']\<rparr> [])
     \<lparr>anchor = ''/'', tail = [''tmp'', ''resume.txt'']\<rparr>
   = (Inl (err_no_text \<lparr>anchor = ''/'', tail = [''tmp'', ''resume.txt'']\<rparr>), [])
   \<and> tailor_resume example_services example_prompts (\<lambda>p s t m. Inr (JObj [(''cv'', JObj [])]))
       (JObj [(''cv'', JObj [(''name'', JStr ''John Doe'')])]) ''   ''
     = (Inl (RenderCVUserError ''Job description cannot be empty.''), [])
   \<and> generate_resume example_prompts (\<lambda>p s t m. Inr (JObj [(''cv'', JObj [])])) ''   ''
     = (Inl (RenderCVUserError ''User information cannot be empty.''), [])"
  using blank_input_raises_before_call [of "example_documents []"
      "example_state \<lparr>anchor = ''/'', tail = [''tmp'', ''resume.txt'']\<rparr> []"
      "\<lparr>anchor = ''/'', tail = [''tmp'', ''resume.txt'']\<rparr>" "[]"
      example_prompts "\<lambda>p s t m. Inr (JObj [(''cv'', JObj [])])" "''   ''"
      example_services "JObj [(''cv'', JObj [(''name'', JStr ''John Doe'')])]" "''   ''"]
    extract_txt_example [of "[]"]
  by (simp add: isspace_def)


lemma json_text_no_fence:
  assumes "json_text s"
  shows "\<not> startswith (strip s) ''```''" and "\<not> endswith (strip s) ''```''"
    and "\<not> prefix ''json'' s"
proof -
  from assms have ne: "strip s \<noteq> []" and h: "hd (strip s) \<in> set json_first"
    and l: "last (strip s) \<in> set json_last"
    by (simp_all add: json_text_def)
  from h have "hd (strip s) \<noteq> CHR ''`''" by (auto simp: json_first_def)
  with ne show "\<not> startswith (strip s) ''```''"
    by (cases "strip s") (auto simp: startswith_def)
  from l have "last (strip s) \<noteq> CHR ''`''" by (auto simp: json_last_def)
  then show "\<not> endswith (strip s) ''```''"
    by (auto simp: endswith_def suffix_def)
  show "\<not> prefix ''json'' s"
  proof
    assume "prefix ''json'' s"
    then obtain r where s: "s = CHR ''j'' # r" by (auto simp: prefix_def)
    have "\<not> isspace CHR ''j''" by (simp add: isspace_def)
    with s have "lstrip s = s" by (simp add: lstrip_def)
    with ne s have "hd (strip s) = CHR ''j''" by (simp add: hd_strip)
    with h show False by (auto simp: json_first_def)
  qed
qed

lemma generate_json_text_reply:
  "AnthropicClient_generate_json (text_reply sv t) cfg prompt system_prompt temperature max_tokens =
     (case get_model cfg of Inl e \<Rightarrow> Inl e | Inr m \<Rightarrow> loads sv (strip_fences t))"
  by (simp add: AnthropicClient_generate_json_def text_reply_def first_text_def loads_def
      split: sum.splits)

text \<open>
  C4. For a JSON text \<open>s\<close>, the messages-style \<open>generate_json\<close> gives the same result for the
  reply \<open>s\<close> and for a reply that wraps \<open>s\<close> in a \<open>```json\<close> or a plain \<open>```\<close> fence, with any
  white space around the fence markers.
\<close>

theorem generate_json_fenced_same:
  assumes "json_text s"
    and "list_all isspace w1" and "list_all isspace w2"
    and "list_all isspace w3" and "list_all isspace w4"
  shows "AnthropicClient_generate_json
           (text_reply sv (w1 @ ''```json'' @ w2 @ s @ w3 @ ''```'' @ w4))
           cfg prompt system_prompt temperature max_tokens
         = AnthropicClient_generate_json (text_reply sv s)
             cfg prompt system_prompt temperature max_tokens
       \<and> AnthropicClient_generate_json
           (text_reply sv (w1 @ ''```'' @ w2 @ s @ w3 @ ''```'' @ w4))
           cfg prompt system_prompt temperature max_tokens
         = AnthropicClient_generate_json (text_reply sv s)
             cfg prompt system_prompt temperature max_tokens"
proof -
  have bare: "strip_fences s = strip s"
    using json_text_no_fence(1,2) [OF assms(1)] by (rule strip_fences_bare)
  have fenced: "strip_fences (w1 @ ''```json'' @ w2 @ s @ w3 @ ''```'' @ w4) = strip s"
    using assms(2-5) by (rule strip_fences_json)
  have "\<not> (w2 = [] \<and> prefix ''json'' s)"
    using json_text_no_fence(3) [OF assms(1)] by simp
  with assms(2-5)
  have plain: "strip_fences (w1 @ ''```'' @ w2 @ s @ w3 @ ''```'' @ w4) = strip s"
    by (rule strip_fences_plain)
  show ?thesis
    by (simp only: generate_json_text_reply bare fenced plain)
qed

text \<open>The theorem at the reply of the repository's test, and at a fence without white space.\<close>

theorem generate_json_fenced_same_witness:
  "AnthropicClient_generate_json
     (text_reply example_services (''```json'' @ nl @ example_body @ nl @ ''```''))
     \<lparr>provider = ''anthropic'', api_key = ''test-key'', model = None\<rparr>
     ''Test prompt'' None (3 / 10) 8192
   = Inr (JObj [(''key'', JStr ''value'')])
   \<and> AnthropicClient_generate_json
     (text_reply example_services (''```'' @ example_body @ ''```''))
     \<lparr>provider = ''anthropic'', api_key = ''test-key'', model = None\<rparr>
     ''Test prompt'' None (3 / 10) 8192
   = Inr (JObj [(''key'', JStr ''value'')])"
proof -
  have plain: "AnthropicClient_generate_json (text_reply example_services example_body)
     \<lparr>provider = ''anthropic'', api_key = ''test-key'', model = None\<rparr>
     ''Test prompt'' None (3 / 10) 8192 = Inr (JObj [(''key'', JStr ''value'')])"
    using strip_fences_bare [OF json_text_no_fence(1,2) [OF json_text_example]]
      strip_id [of example_body]
    by (simp add: generate_json_text_reply get_model_def loads_def example_services_def
        example_loads_def example_body_def isspace_def)
  have e: "list_all isspace ([]::string)" by simp
  from generate_json_fenced_same [OF json_text_example e isspace_nl isspace_nl e,
      of example_services "\<lparr>provider = ''anthropic'', api_key = ''test-key'', model = None\<rparr>"
         "''Test prompt''" None "3 / 10" 8192]
    generate_json_fenced_same [OF json_text_example e e e e,
      of example_services "\<lparr>provider = ''anthropic'', api_key = ''test-key'', model = None\<rparr>"
         "''Test prompt''" None "3 / 10" 8192]
    plain
  show ?thesis by simp
qed


section \<open>Saving and loading a resume\<close>

text \<open>
  On a dictionary, \<open>save_resume_yaml\<close> first completes the caller's object with the two
  default blocks and then writes it.
\<close>

lemma map_of_add_default:
  "map_of (add_default key block d) k =
     (if k = key \<and> key \<notin> set (map fst d) then Some block else map_of d k)"
  by (simp add: add_default_def update_conv')

lemma keys_add_default:
  "fst ` set (add_default key block d) = insert key (fst ` set d)"
  by (auto simp: add_default_def dom_update)

lemma map_of_with_defaults:
  "map_of (add_default ''locale'' L (add_default ''design'' D d)) k =
     (if k = ''locale'' \<and> ''locale'' \<notin> fst ` set d then Some L
      else if k = ''design'' \<and> ''design'' \<notin> fst ` set d then Some D
      else map_of d k)"
  by (simp add: map_of_add_default keys_add_default)

lemma ensure_key_dict:
  assumes "heap st r = JObj d"
  shows "ensure_key r key block st =
           (Inr (), st\<lparr>heap := (heap st)(r := JObj (add_default key block d))\<rparr>)"
proof (cases "key \<in> set (map fst d)")
  case True
  from assms have "(heap st)(r := JObj d) = heap st" by auto
  with True assms show ?thesis by (simp add: ensure_key_def add_default_def)
next
  case False
  with assms show ?thesis by (simp add: ensure_key_def add_default_def)
qed

lemma save_resume_yaml_dict:
  assumes "heap st r = JObj d"
  shows "save_resume_yaml yl r output_path theme locale st =
           write_yaml yl r output_path
             (st\<lparr>heap := (heap st)(r := JObj
                (add_default ''locale'' (JObj [(''language'', JStr locale)])
                  (add_default ''design'' (JObj [(''theme'', JStr theme)]) d)))\<rparr>)"
  by (simp add: save_resume_yaml_def ensure_key_dict [OF assms] ensure_key_dict)

lemma write_yaml_heap: "heap (snd (write_yaml yl r p st)) = heap st"
  and write_yaml_top: "top (snd (write_yaml yl r p st)) = top st"
  by (simp_all add: write_yaml_def)





text \<open>
  C9. \<open>save_resume_yaml\<close> changes the caller's dictionary in place: after the call (whether
  or not the file could be written) the object at the caller's address holds the default
  \<open>design\<close> and \<open>locale\<close> blocks it lacked and every entry it had; no object is allocated and
  no other object changes.
\<close>

theorem save_resume_yaml_mutates_caller_dict:
  assumes "heap st r = JObj d"
  shows "top (snd (save_resume_yaml yl r output_path theme locale st)) = top st
    \<and> (\<forall>a. a \<noteq> r \<longrightarrow>
          heap (snd (save_resume_yaml yl r output_path theme locale st)) a = heap st a)
    \<and> (''design'' \<notin> set (map fst d) \<longrightarrow>
          py_getitem (heap (snd (save_resume_yaml yl r output_path theme locale st)) r) ''design''
            = Inr (JObj [(''theme'', JStr theme)]))
    \<and> (''locale'' \<notin> set (map fst d) \<longrightarrow>
          py_getitem (heap (snd (save_resume_yaml yl r output_path theme locale st)) r) ''locale''
            = Inr (JObj [(''language'', JStr locale)]))
    \<and> (\<forall>k v. map_of d k = Some v \<longrightarrow>
          py_getitem (heap (snd (save_resume_yaml yl r output_path theme locale st)) r) k = Inr v)"
proof -
  have k: "k \<in> fst ` set d" if "map_of d k = Some v" for k v
    using map_of_Some_key [OF that] by simp
  show ?thesis
    by (auto simp: save_resume_yaml_dict [OF assms] write_yaml_heap write_yaml_top
        map_of_with_defaults dest: k)
qed



text \<open>The theorem for a document with only \<open>cv\<close>, saved with the default theme and locale.\<close>

theorem save_resume_yaml_mutates_caller_dict_witness:
  "top (snd (save_resume_yaml (example_yaml JNull) 0 example_path ''classic'' ''english''
          (example_store (JObj example_new)))) = 1
   \<and> py_getitem (heap (snd (save_resume_yaml (example_yaml JNull) 0 example_path ''classic''
          ''english'' (example_store (JObj example_new)))) 0) ''design''
       = Inr (JObj [(''theme'', JStr ''classic'')])
   \<and> py_getitem (heap (snd (save_resume_yaml (example_yaml JNull) 0 example_path ''classic''
          ''english'' (example_store (JObj example_new)))) 0) ''locale''
       = Inr (JObj [(''language'', JStr ''english'')])
   \<and> heap (snd (save_resume_yaml (example_yaml JNull) 0 example_path ''classic''
          ''english'' (example_store (JObj example_new)))) 1 = JNull"
  using save_resume_yaml_mutates_caller_dict [of "example_store (JObj example_new)" 0
      example_new "example_yaml JNull" example_path "''classic''" "''english''"]
  by (simp add: example_store_def example_new_def)





section \<open>The carry-over between the old and the new document\<close>


lemma map_of_key_Some: "k \<in> fst ` set d \<Longrightarrow> \<exists>v. map_of d k = Some v"
  by (cases "map_of d k") (auto simp: map_of_eq_None_iff)

lemma preserve_dict: "preserve key (JObj old) (JObj d) = Inr (JObj (keep_from key old d))"
proof (cases "key \<in> fst ` set old")
  case False
  then show ?thesis by (simp add: preserve_def keep_from_def)
next
  case in_old: True
  show ?thesis
  proof (cases "key \<in> fst ` set d")
    case True
    with in_old show ?thesis by (simp add: preserve_def keep_from_def)
  next
    case False
    from in_old obtain v where "map_of old key = Some v"
      using map_of_key_Some [of key old] by auto
    with False in_old show ?thesis by (simp add: preserve_def keep_from_def)
  qed
qed

lemma carry_over_dict:
  "carry_over (JObj old) (JObj new) =
     Inr (JObj (keep_from ''settings'' old (keep_from ''locale'' old
                 (keep_from ''design'' old new))))"
  by (simp add: carry_over_def preserve_dict)

lemma keep_from_stable:
  "k \<in> fst ` set d \<Longrightarrow>
   map_of (keep_from key old d) k = map_of d k \<and> k \<in> fst ` set (keep_from key old d)"
  by (auto simp: keep_from_def update_conv' dom_update)

lemma keep_from_copied:
  "key \<in> fst ` set old \<Longrightarrow> key \<notin> fst ` set d \<Longrightarrow>
   map_of (keep_from key old d) key = map_of old key \<and> key \<in> fst ` set (keep_from key old d)"
  using map_of_key_Some [of key old] by (auto simp: keep_from_def update_conv' dom_update)

lemma keep_from_other:
  "k \<noteq> key \<Longrightarrow> k \<notin> fst ` set d \<Longrightarrow> k \<notin> fst ` set (keep_from key old d)"
  by (auto simp: keep_from_def dom_update)

lemma add_default_stable:
  "k \<in> fst ` set d \<Longrightarrow>
   map_of (add_default key block d) k = map_of d k \<and> k \<in> fst ` set (add_default key block d)"
  by (auto simp: add_default_def update_conv' dom_update)


text \<open>A key that a dictionary has keeps its value through the later steps.\<close>

lemma later_steps_stable:
  assumes "k \<in> fst ` set d"
  shows "map_of (add_default ''locale'' L (add_default ''design'' D d)) k = map_of d k"
proof -
  from add_default_stable [OF assms, of "''design''" D]
  have 1: "map_of (add_default ''design'' D d) k = map_of d k"
    and 2: "k \<in> fst ` set (add_default ''design'' D d)" by simp_all
  from add_default_stable [OF 2, of "''locale''" L] 1 show ?thesis by simp
qed

lemma carried_forward_saved:
  "carried_forward old new
     (JObj (add_default ''locale'' L (add_default ''design'' D
        (keep_from ''settings'' old (keep_from ''locale'' old (keep_from ''design'' old new))))))"
proof -
  define m1 where "m1 = keep_from ''design'' old new"
  define m2 where "m2 = keep_from ''locale'' old m1"
  define m3 where "m3 = keep_from ''settings'' old m2"
  define s where "s = add_default ''locale'' L (add_default ''design'' D m3)"
  have s3: "map_of s k = map_of m3 k" if "k \<in> fst ` set m3" for k
    unfolding s_def using that by (rule later_steps_stable)
  have new_keys: "map_of s k = map_of new k" if "k \<in> fst ` set new" for k
  proof -
    from keep_from_stable [OF that, of "''design''" old]
    have a: "map_of m1 k = map_of new k" "k \<in> fst ` set m1" by (simp_all add: m1_def)
    from keep_from_stable [OF a(2), of "''locale''" old]
    have b: "map_of m2 k = map_of m1 k" "k \<in> fst ` set m2" by (simp_all add: m2_def)
    from keep_from_stable [OF b(2), of "''settings''" old]
    have c: "map_of m3 k = map_of m2 k" "k \<in> fst ` set m3" by (simp_all add: m3_def)
    from s3 [OF c(2)] a(1) b(1) c(1) show ?thesis by simp
  qed
  have design_ok: "map_of s ''design'' = map_of old ''design''"
    if "''design'' \<in> fst ` set old" "''design'' \<notin> fst ` set new"
  proof -
    from keep_from_copied [OF that]
    have a: "map_of m1 ''design'' = map_of old ''design''" "''design'' \<in> fst ` set m1"
      by (simp_all add: m1_def)
    from keep_from_stable [OF a(2), of "''locale''" old]
    have b: "map_of m2 ''design'' = map_of m1 ''design''" "''design'' \<in> fst ` set m2"
      by (simp_all add: m2_def)
    from keep_from_stable [OF b(2), of "''settings''" old]
    have c: "map_of m3 ''design'' = map_of m2 ''design''" "''design'' \<in> fst ` set m3"
      by (simp_all add: m3_def)
    from s3 [OF c(2)] a(1) b(1) c(1) show ?thesis by simp
  qed
  have locale_ok: "map_of s ''locale'' = map_of old ''locale''"
    if "''locale'' \<in> fst ` set old" "''locale'' \<notin> fst ` set new"
  proof -
    have "''locale'' \<notin> fst ` set m1"
      unfolding m1_def using that(2) by (intro keep_from_other) simp_all
    from keep_from_copied [OF that(1) this]
    have b: "map_of m2 ''locale'' = map_of old ''locale''" "''locale'' \<in> fst ` set m2"
      by (simp_all add: m2_def)
    from keep_from_stable [OF b(2), of "''settings''" old]
    have c: "map_of m3 ''locale'' = map_of m2 ''locale''" "''locale'' \<in> fst ` set m3"
      by (simp_all add: m3_def)
    from s3 [OF c(2)] b(1) c(1) show ?thesis by simp
  qed
  have settings_ok: "map_of s ''settings'' = map_of old ''settings''"
    if "''settings'' \<in> fst ` set old" "''settings'' \<notin> fst ` set new"
  proof -
    have "''settings'' \<notin> fst ` set m1"
      unfolding m1_def using that(2) by (intro keep_from_other) simp_all
    then have "''settings'' \<notin> fst ` set m2"
      unfolding m2_def by (intro keep_from_other) simp_all
    from keep_from_copied [OF that(1) this]
    have c: "map_of m3 ''settings'' = map_of old ''settings''" "''settings'' \<in> fst ` set m3"
      by (simp_all add: m3_def)
    from s3 [OF c(2)] c(1) show ?thesis by simp
  qed
  have "carried_forward old new (JObj s)"
    unfolding carried_forward_def
  proof (intro conjI ballI impI)
    fix k
    assume kk: "k \<in> set [''design'', ''locale'', ''settings'']"
      and ks: "k \<in> set (map fst old) \<and> k \<notin> set (map fst new)"
    from ks have ko: "k \<in> fst ` set old" and kn: "k \<notin> fst ` set new" by simp_all
    from kk have "k = ''design'' \<or> k = ''locale'' \<or> k = ''settings''" by simp
    then have "map_of s k = map_of old k"
    proof (elim disjE)
      assume "k = ''design''"
      with ko kn design_ok show ?thesis by simp
    next
      assume "k = ''locale''"
      with ko kn locale_ok show ?thesis by simp
    next
      assume "k = ''settings''"
      with ko kn settings_ok show ?thesis by simp
    qed
    then show "py_getitem (JObj s) k = py_getitem (JObj old) k" by simp
  next
    fix k
    assume "k \<in> set (map fst new)"
    then have "k \<in> fst ` set new" by simp
    from new_keys [OF this] show "py_getitem (JObj s) k = py_getitem (JObj new) k" by simp
  qed
  then show ?thesis by (simp only: s_def m3_def m2_def m1_def)
qed

lemma carry_and_save_dict:
  assumes "writable st out" "files st out \<noteq> Some Dir"
  shows "\<exists>doc. fst (carry_and_save cx (JObj old) (JObj new) out st) = Inr ()
     \<and> files (snd (carry_and_save cx (JObj old) (JObj new) out st)) out
         = Some (File (yaml_dump (ctx_yaml cx) doc))
     \<and> carried_forward old new doc"
proof -
  let ?m = "keep_from ''settings'' old (keep_from ''locale'' old (keep_from ''design'' old new))"
  let ?st1 = "st\<lparr>heap := (heap st)(top st := JObj ?m), top := Suc (top st)\<rparr>"
  let ?doc = "JObj (add_default ''locale'' (JObj [(''language'', JStr ''english'')])
                 (add_default ''design'' (JObj [(''theme'', JStr ''classic'')]) ?m))"
  have h: "heap ?st1 (top st) = JObj ?m" by simp
  have "carry_and_save cx (JObj old) (JObj new) out st =
      write_yaml (ctx_yaml cx) (top st) out (?st1\<lparr>heap := (heap ?st1)(top st := ?doc)\<rparr>)"
    by (simp add: carry_and_save_def carry_over_dict alloc_def save_resume_yaml_dict [OF h])
  with assms have "fst (carry_and_save cx (JObj old) (JObj new) out st) = Inr ()"
    and "files (snd (carry_and_save cx (JObj old) (JObj new) out st)) out
         = Some (File (yaml_dump (ctx_yaml cx) ?doc))"
    by (simp_all add: write_yaml_def)
  with carried_forward_saved [of old new] show ?thesis by blast
qed

text \<open>
  C6. The carry-over law of the polish and the tailor command: when the input file loads as
  the document \<open>old\<close>, a client is found, the service returns the document \<open>new\<close> and the
  output path can be written, the command succeeds and the document it writes has, for each
  of \<open>design\<close>, \<open>locale\<close> and \<open>settings\<close> that \<open>old\<close> has and \<open>new\<close> lacks, the value of
  \<open>old\<close>, and for every key of \<open>new\<close> the value of \<open>new\<close>. In particular, when \<open>old\<close> has all
  three and \<open>new\<close> has none of them, the saved document has the three values of \<open>old\<close>.
\<close>

theorem carry_over_law:
  assumes "load_resume_yaml (ctx_yaml cx) st input_file = Inr (JObj old)"
    and "get_ai_client (ctx_process cx) prov key mdl = Inr service"
  shows "(fst (polish_resume (ctx_services cx) (ctx_prompts cx)
                 (generate_json (ctx_services cx) service) (JObj old) focus) = Inr (JObj new)
          \<and> writable st (polish_output input_file output in_place)
          \<and> files st (polish_output input_file output in_place) \<noteq> Some Dir \<longrightarrow>
          (\<exists>doc. fst (ai_polish cx input_file output focus in_place prov key mdl st) = Inr ()
             \<and> files (snd (ai_polish cx input_file output focus in_place prov key mdl st))
                 (polish_output input_file output in_place)
                 = Some (File (yaml_dump (ctx_yaml cx) doc))
             \<and> carried_forward old new doc))
       \<and> (fst (tailor_resume (ctx_services cx) (ctx_prompts cx)
                 (generate_json (ctx_services cx) service) (JObj old)
                 (read_job_description st job)) = Inr (JObj new)
          \<and> writable st (tailor_output input_file output)
          \<and> files st (tailor_output input_file output) \<noteq> Some Dir \<longrightarrow>
          (\<exists>doc. fst (ai_tailor cx input_file job output prov key mdl st) = Inr ()
             \<and> files (snd (ai_tailor cx input_file job output prov key mdl st))
                 (tailor_output input_file output)
                 = Some (File (yaml_dump (ctx_yaml cx) doc))
             \<and> carried_forward old new doc))"
proof (intro conjI impI)
  assume a: "fst (polish_resume (ctx_services cx) (ctx_prompts cx)
                 (generate_json (ctx_services cx) service) (JObj old) focus) = Inr (JObj new)
          \<and> writable st (polish_output input_file output in_place)
          \<and> files st (polish_output input_file output in_place) \<noteq> Some Dir"
  then have "ai_polish cx input_file output focus in_place prov key mdl st =
      carry_and_save cx (JObj old) (JObj new) (polish_output input_file output in_place) st"
    using assms by (simp add: ai_polish_def)
  with a carry_and_save_dict [of st "polish_output input_file output in_place" cx old new]
  show "\<exists>doc. fst (ai_polish cx input_file output focus in_place prov key mdl st) = Inr ()
             \<and> files (snd (ai_polish cx input_file output focus in_place prov key mdl st))
                 (polish_output input_file output in_place)
                 = Some (File (yaml_dump (ctx_yaml cx) doc))
             \<and> carried_forward old new doc"
    by simp
next
  assume a: "fst (tailor_resume (ctx_services cx) (ctx_prompts cx)
                 (generate_json (ctx_services cx) service) (JObj old)
                 (read_job_description st job)) = Inr (JObj new)
          \<and> writable st (tailor_output input_file output)
          \<and> files st (tailor_output input_file output) \<noteq> Some Dir"
  then have "ai_tailor cx input_file job output prov key mdl st =
      carry_and_save cx (JObj old) (JObj new) (tailor_output input_file output) st"
    using assms by (simp add: ai_tailor_def)
  with a carry_and_save_dict [of st "tailor_output input_file output" cx old new]
  show "\<exists>doc. fst (ai_tailor cx input_file job output prov key mdl st) = Inr ()
             \<and> files (snd (ai_tailor cx input_file job output prov key mdl st))
                 (tailor_output input_file output)
                 = Some (File (yaml_dump (ctx_yaml cx) doc))
             \<and> carried_forward old new doc"
    by simp
qed


text \<open>The example environment: the file loads, a client is found, the service answers.\<close>

lemma example_load:
  "load_resume_yaml (ctx_yaml example_env) (example_state example_input ''doc'') example_input
   = Inr (JObj example_old)"
  by (simp add: load_resume_yaml_def example_env_def example_state_def example_yaml_def)

lemma example_client:
  "get_ai_client (ctx_process example_env) None None None
   = Inr (OpenAIClient \<lparr>provider = ''openai'', api_key = ''test-key'', model = None\<rparr>)"
  by (simp add: example_env_def get_ai_client_def detect_provider_def resolve_key_def
      OpenAIClient_init_def)

lemma example_generate_json:
  "OpenAIClient_generate_json (ctx_services example_env)
     \<lparr>provider = ''openai'', api_key = ''test-key'', model = None\<rparr> p s t m
   = Inr (JObj [(''cv'', JObj [])])"
  by (simp add: example_env_def OpenAIClient_generate_json_def get_model_def choice_reply_def
      first_choice_def or_else_def loads_def example_services_def example_loads_def
      example_cv_reply_def example_body_def)

lemma example_polish:
  "fst (polish_resume (ctx_services example_env) (ctx_prompts example_env)
     (generate_json (ctx_services example_env)
        (OpenAIClient \<lparr>provider = ''openai'', api_key = ''test-key'', model = None\<rparr>))
     (JObj example_old) None) = Inr (JObj [(''cv'', JObj [])])"
  by (simp add: polish_resume_def call_generate_json_def example_generate_json require_cv_def Let_def)

lemma example_job:
  "read_job_description (example_state example_input ''doc'') ''Python developer''
   = ''Python developer''"
  by (simp add: read_job_description_def example_state_def example_input_def Path_def)

lemma example_tailor:
  "fst (tailor_resume (ctx_services example_env) (ctx_prompts example_env)
     (generate_json (ctx_services example_env)
        (OpenAIClient \<lparr>provider = ''openai'', api_key = ''test-key'', model = None\<rparr>))
     (JObj example_old)
     (read_job_description (example_state example_input ''doc'') ''Python developer''))
   = Inr (JObj [(''cv'', JObj [])])"
  unfolding example_job
  by (simp add: tailor_resume_def call_generate_json_def example_generate_json tailor_extract_def
      strip_id isspace_def Let_def)

lemma example_writable:
  "writable (example_state example_input ''doc'') p"
  "files (example_state example_input ''doc'') p \<noteq> Some Dir"
  by (simp_all add: example_state_def)


text \<open>
  The theorem for an old document with all three blocks and the reply \<open>{"cv": {}}\<close>: both
  commands write a document with the new \<open>cv\<close> and the old \<open>design\<close>, \<open>locale\<close> and
  \<open>settings\<close>.
\<close>

theorem carry_over_law_witness:
  "(\<exists>doc. fst (ai_polish example_env example_input None None False None None None
               (example_state example_input ''doc'')) = Inr ()
      \<and> files (snd (ai_polish example_env example_input None None False None None None
               (example_state example_input ''doc''))) (polish_output example_input None False)
          = Some (File (yaml_dump (ctx_yaml example_env) doc))
      \<and> py_getitem doc ''cv'' = Inr (JObj [])
      \<and> py_getitem doc ''design'' = Inr (JObj [(''theme'', JStr ''moderncv'')])
      \<and> py_getitem doc ''locale'' = Inr (JObj [(''language'', JStr ''french'')])
      \<and> py_getitem doc ''settings'' = Inr (JObj [(''bold_keywords'', JArr [])]))
   \<and> (\<exists>doc. fst (ai_tailor example_env example_input ''Python developer'' None None None None
               (example_state example_input ''doc'')) = Inr ()
      \<and> files (snd (ai_tailor example_env example_input ''Python developer'' None None None None
               (example_state example_input ''doc''))) (tailor_output example_input None)
          = Some (File (yaml_dump (ctx_yaml example_env) doc))
      \<and> py_getitem doc ''cv'' = Inr (JObj [])
      \<and> py_getitem doc ''design'' = Inr (JObj [(''theme'', JStr ''moderncv'')])
      \<and> py_getitem doc ''locale'' = Inr (JObj [(''language'', JStr ''french'')])
      \<and> py_getitem doc ''settings'' = Inr (JObj [(''bold_keywords'', JArr [])]))"
proof -
  have law: "(\<exists>doc. fst (ai_polish example_env example_input None None False None None None
               (example_state example_input ''doc'')) = Inr ()
      \<and> files (snd (ai_polish example_env example_input None None False None None None
               (example_state example_input ''doc''))) (polish_output example_input None False)
          = Some (File (yaml_dump (ctx_yaml example_env) doc))
      \<and> carried_forward example_old [(''cv'', JObj [])] doc)
   \<and> (\<exists>doc. fst (ai_tailor example_env example_input ''Python developer'' None None None None
               (example_state example_input ''doc'')) = Inr ()
      \<and> files (snd (ai_tailor example_env example_input ''Python developer'' None None None None
               (example_state example_input ''doc''))) (tailor_output example_input None)
          = Some (File (yaml_dump (ctx_yaml example_env) doc))
      \<and> carried_forward example_old [(''cv'', JObj [])] doc)"
    using carry_over_law [of example_env "example_state example_input ''doc''" example_input
      example_old None None None
      "OpenAIClient \<lparr>provider = ''openai'', api_key = ''test-key'', model = None\<rparr>"
      None "[(''cv'', JObj [])]" None False "''Python developer''",
      OF example_load example_client]
    by (simp only: example_polish example_tailor example_writable simp_thms)
  have entries: "py_getitem doc ''cv'' = Inr (JObj [])
      \<and> py_getitem doc ''design'' = Inr (JObj [(''theme'', JStr ''moderncv'')])
      \<and> py_getitem doc ''locale'' = Inr (JObj [(''language'', JStr ''french'')])
      \<and> py_getitem doc ''settings'' = Inr (JObj [(''bold_keywords'', JArr [])])"
    if "carried_forward example_old [(''cv'', JObj [])] doc" for doc
    using that by (simp add: carried_forward_def example_old_def)
  from law entries show ?thesis by blast
qed


section \<open>Dispatch of the text extractor\<close>






section \<open>Replies without content\<close>

text \<open>
  C8. The claim says that \<open>generate\<close> of both clients returns the empty string when the reply
  carries no content. The chat-completion client does (\<open>content or ""\<close>); the messages
  client reads \<open>response.content[0].text\<close> unguarded, so a reply whose list of content
  blocks is empty raises \<open>IndexError\<close>.
\<close>

theorem anthropic_generate_empty_content:
  "OpenAIClient_generate (choice_reply sv None)
     \<lparr>provider = ''openai'', api_key = ''test-key'', model = None\<rparr>
     prompt system_prompt temperature max_tokens = Inr []
   \<and> AnthropicClient_generate (empty_reply sv)
     \<lparr>provider = ''anthropic'', api_key = ''test-key'', model = None\<rparr>
     prompt system_prompt temperature max_tokens = Inl IndexError"
  by (simp add: OpenAIClient_generate_def AnthropicClient_generate_def choice_reply_def
      empty_reply_def get_model_def first_choice_def first_text_def or_else_def)


section \<open>A chat-completion reply without content\<close>

lemma generate_json_no_content:
  assumes "json_loads sv ''{}'' = Some (JObj [])"
    and "\<And>req. no_content (chat_completions_create sv req)"
    and "provider cfg = ''openai''"
  shows "OpenAIClient_generate_json sv cfg prompt system_prompt temperature max_tokens
         = Inr (JObj [])"
proof -
  from assms(3) have "\<exists>m. get_model cfg = Inr m"
    by (simp add: get_model_def)
  then obtain m where m: "get_model cfg = Inr m" ..
  let ?req = "\<lparr>cr_model = m, cr_messages = openai_messages prompt system_prompt,
      cr_temperature = temperature, cr_max_tokens = max_tokens,
      cr_response_format = Some (''type'', ''json_object'')\<rparr>"
  from assms(2) [of ?req] obtain response c cs
    where r: "chat_completions_create sv ?req = Inr response" "choices response = c # cs"
      "\<not> truthy c"
    by (auto simp: no_content_def split: sum.splits list.splits)
  with assms(1) m show ?thesis
    by (simp add: OpenAIClient_generate_json_def Let_def first_choice_def or_else_def loads_def)
qed

text \<open>
  C10. For the chat-completion client: when the reply carries no content (the first choice has
  the content \<open>None\<close> or \<open>""\<close>), \<open>generate_json\<close> hands the literal text \<open>{}\<close> to \<open>json.loads\<close>
  and returns the empty object, not a JSON parse error (\<open>json.loads("{}")\<close> is \<open>{}\<close>). Each
  service operation that gets past its own input check then fails in its test for the
  top-level key, with its "AI failed to generate valid ..." error.
\<close>

theorem openai_no_content_reported_by_key_check:
  assumes "json_loads sv ''{}'' = Some (JObj [])"
    and "\<And>req. no_content (chat_completions_create sv req)"
    and "provider cfg = ''openai''"
  shows "OpenAIClient_generate_json sv cfg prompt system_prompt temperature max_tokens
           = Inr (JObj [])
     \<and> (extract_resume_text lib st file_path = Inr resume_text \<and> strip resume_text \<noteq> [] \<longrightarrow>
          fst (parse_resume lib P (generate_json sv (OpenAIClient cfg)) st file_path)
            = Inl (RenderCVUserError
                ''AI failed to generate valid resume structure. Please try again.''))
     \<and> fst (polish_resume sv P (generate_json sv (OpenAIClient cfg)) resume_data focus_areas)
          = Inl (RenderCVUserError
              ''AI failed to generate valid polished resume. Please try again.'')
     \<and> (strip job_description \<noteq> [] \<longrightarrow>
          fst (tailor_resume sv P (generate_json sv (OpenAIClient cfg)) resume_data
                 job_description)
            = Inl err_tailor_shape)
     \<and> (strip user_info \<noteq> [] \<longrightarrow>
          fst (generate_resume P (generate_json sv (OpenAIClient cfg)) user_info)
            = Inl (RenderCVUserError ''AI failed to generate valid resume. Please try again.''))"
  by (simp add: generate_json_no_content [OF assms] parse_resume_def polish_resume_def
      tailor_resume_def generate_resume_def call_generate_json_def require_cv_def
      tailor_extract_def Let_def)

text \<open>The theorem for a backend whose only choice has the content \<open>None\<close>.\<close>

lemma example_no_content:
  "json_loads (choice_reply example_services None) ''{}'' = Some (JObj [])"
  "no_content (chat_completions_create (choice_reply example_services None) req)"
  by (simp_all add: choice_reply_def example_services_def example_loads_def example_body_def
      example_cv_reply_def no_content_def)

theorem openai_no_content_reported_by_key_check_witness:
  "OpenAIClient_generate_json (choice_reply example_services None)
     \<lparr>provider = ''openai'', api_key = ''test-key'', model = None\<rparr>
     ''Parse this'' None (3 / 10) 8192 = Inr (JObj [])
   \<and> fst (parse_resume (example_documents ''John Doe'') example_prompts
       (generate_json (choice_reply example_services None)
          (OpenAIClient \<lparr>provider = ''openai'', api_key = ''test-key'', model = None\<rparr>))
       (example_state \<lparr>anchor = ''/'', tail = [''tmp'', ''resume.txt'']\<rparr> ''John Doe'')
       \<lparr>anchor = ''/'', tail = [''tmp'', ''resume.txt'']\<rparr>)
     = Inl (RenderCVUserError ''AI failed to generate valid resume structure. Please try again.'')
   \<and> fst (polish_resume (choice_reply example_services None) example_prompts
       (generate_json (choice_reply example_services None)
          (OpenAIClient \<lparr>provider = ''openai'', api_key = ''test-key'', model = None\<rparr>))
       (JObj example_old) None)
     = Inl (RenderCVUserError ''AI failed to generate valid polished resume. Please try again.'')
   \<and> fst (tailor_resume (choice_reply example_services None) example_prompts
       (generate_json (choice_reply example_services None)
          (OpenAIClient \<lparr>provider = ''openai'', api_key = ''test-key'', model = None\<rparr>))
       (JObj example_old) ''Python developer'')
     = Inl err_tailor_shape
   \<and> fst (generate_resume example_prompts
       (generate_json (choice_reply example_services None)
          (OpenAIClient \<lparr>provider = ''openai'', api_key = ''test-key'', model = None\<rparr>))
       ''Name: John Doe'')
     = Inl (RenderCVUserError ''AI failed to generate valid resume. Please try again.'')"
proof -
  have blank: "strip ''John Doe'' \<noteq> []" "strip ''Python developer'' \<noteq> []"
    "strip ''Name: John Doe'' \<noteq> []"
    by (simp_all add: strip_id isspace_def)
  from openai_no_content_reported_by_key_check [of "choice_reply example_services None"
      "\<lparr>provider = ''openai'', api_key = ''test-key'', model = None\<rparr>"
      "''Parse this''" None "3 / 10" 8192
      "example_documents ''John Doe''"
      "example_state \<lparr>anchor = ''/'', tail = [''tmp'', ''resume.txt'']\<rparr> ''John Doe''"
      "\<lparr>anchor = ''/'', tail = [''tmp'', ''resume.txt'']\<rparr>" "''John Doe''"
      example_prompts "JObj example_old" None "''Python developer''" "''Name: John Doe''",
      OF example_no_content]
    extract_txt_example [of "''John Doe''"] blank
  show ?thesis by simp
qed


end
